theory Spec2Isabelle
  imports Complex_Main "HOL-Library.Sublist"
begin



section \<open>Python values used by the karaoke pipeline\<close>

text \<open>
  Strings are lists of characters, one for each code point (all below 256). A Python float
  is modelled by the real number it denotes: NaN and the infinities are outside the model,
  and no definition below does arithmetic on a float other than comparing it with an
  integer literal. The path functions are those of \<^verbatim>\<open>posixpath\<close>.
\<close>

text \<open>\<^verbatim>\<open>sub in s\<close> on strings.\<close>

fun py_in :: "string \<Rightarrow> string \<Rightarrow> bool" where
  "py_in sub [] = (sub = [])"
| "py_in sub (c # cs) = (prefix sub (c # cs) \<or> py_in sub cs)"

text \<open>\<^verbatim>\<open>os.path.join(a, *p)\<close>: one step of its loop, then the loop.\<close>

definition join_step :: "string \<Rightarrow> string \<Rightarrow> string" where
  "join_step path b =
     (if prefix ''/'' b then b
      else if path = [] \<or> last path = CHR ''/'' then path @ b
      else path @ ''/'' @ b)"

definition os_path_join :: "string \<Rightarrow> string list \<Rightarrow> string" where
  "os_path_join a p = foldl join_step a p"

text \<open>\<^verbatim>\<open>os.path.basename(p)\<close>: what follows the last separator.\<close>

definition os_path_basename :: "string \<Rightarrow> string" where
  "os_path_basename p = rev (takeWhile (\<lambda>c. c \<noteq> CHR ''/'') (rev p))"

text \<open>\<^verbatim>\<open>os.path.dirname(p)\<close>: the head up to the last separator, with trailing
  separators removed unless the head consists of separators only.\<close>

definition os_path_dirname :: "string \<Rightarrow> string" where
  "os_path_dirname p =
     (let head = rev (dropWhile (\<lambda>c. c \<noteq> CHR ''/'') (rev p))
      in if head \<noteq> [] \<and> list_ex (\<lambda>c. c \<noteq> CHR ''/'') head
         then rev (dropWhile (\<lambda>c. c = CHR ''/'') (rev head))
         else head)"

text \<open>\<^verbatim>\<open>os.path.splitext(p)[0]\<close>: the extension starts at the last dot of the final
  component, unless only dots precede it there.\<close>

definition splitext_root :: "string \<Rightarrow> string" where
  "splitext_root p =
     (let name = os_path_basename p;
          dir = take (length p - length name) p
      in if CHR ''.'' \<in> set name
         then (let stem = rev (tl (dropWhile (\<lambda>c. c \<noteq> CHR ''.'') (rev name)))
               in if list_ex (\<lambda>c. c \<noteq> CHR ''.'') stem then dir @ stem else p)
         else p)"

text \<open>\<^verbatim>\<open>str.isspace\<close> on the code points below 256, and \<^verbatim>\<open>str.strip()\<close>.\<close>

definition py_isspace :: "char \<Rightarrow> bool" where
  "py_isspace c = (of_char c \<in> {9, 10, 11, 12, 13, 28, 29, 30, 31, 32, 133, 160 :: nat})"

definition py_strip :: "string \<Rightarrow> string" where
  "py_strip s = rev (dropWhile py_isspace (rev (dropWhile py_isspace s)))"

text \<open>\<^verbatim>\<open>s.replace(c, new)\<close> for a one-character pattern.\<close>

definition py_replace :: "char \<Rightarrow> string \<Rightarrow> string \<Rightarrow> string" where
  "py_replace c new s = concat (map (\<lambda>x. if x = c then new else [x]) s)"

text \<open>\<^verbatim>\<open>str(n)\<close> for an integer.\<close>

fun digits :: "nat \<Rightarrow> string" where
  "digits n = (if n < 10 then [char_of (48 + n)] else digits (n div 10) @ [char_of (48 + n mod 10)])"

definition py_str_int :: "int \<Rightarrow> string" where
  "py_str_int i = (if i < 0 then ''-'' @ digits (nat (- i)) else digits (nat i))"

section \<open>Exceptions, data and the outside world\<close>

datatype exn =
    CalledProcessError int string
  | OSError
  | UnicodeDecodeError
  | ValueError
  | RuntimeError
  | TypeError
  | OverflowError

fun is_CalledProcessError :: "exn \<Rightarrow> bool" where
  "is_CalledProcessError (CalledProcessError rc cmd) = True"
| "is_CalledProcessError e = False"

text \<open>A segment of the recognition engine's result: the three keys the code reads.\<close>

record segment =
  seg_start :: real
  seg_end :: real
  seg_text :: string

text \<open>
  A \<^verbatim>\<open>datetime.timedelta\<close> is a whole number of microseconds. A \<^verbatim>\<open>pysrt.SubRipTime\<close>
  is a whole number of milliseconds, its \<^verbatim>\<open>ordinal\<close>. A \<^verbatim>\<open>pysrt.SubRipItem\<close> has an
  index, two such times and a text, and a \<^verbatim>\<open>pysrt.SubRipFile\<close> is the list of its items
  in the order of the \<^verbatim>\<open>append\<close> calls.
\<close>

datatype timedelta = Timedelta (microseconds: int)

datatype subriptime = SubRipTime (ordinal: int)

record subrip_item =
  srt_index :: int
  srt_start :: subriptime
  srt_end :: subriptime
  srt_text :: string

text \<open>
  What the page shows. A message that contains a formatted float, an exception or a code
  point beyond 255 is kept symbolic; all others are their text.
\<close>

datatype message =
    Text string
  | LargeFile nat
  | LongVideo real
  | UsingTiny real
  | ErrorOccurred exn
  | GeneratedSuccessfully

text \<open>
  Every call that leaves the program is recorded, with its outcome where it has one.
  The list of events so far is the state that all functions below pass along.
\<close>

datatype event =
    Makedirs string bool
  | Shell string int
  | Exists string bool
  | Remove string bool
  | Print string
  | LoadModel string bool
  | Transcribe string string bool
  | SaveSrt string "subrip_item list" bool
  | Mkdtemp "string option"
  | WriteFile string bool
  | OpenRead string bool
  | StWarning message
  | StInfo message
  | StError message
  | StMarkdown message
  | ProgressBar nat
  | Progress nat
  | StatusText message
  | DownloadButton string string
  | StVideo string

text \<open>
  The outside world answers each call as a function of everything that happened before:
  the file system, the three engines and the three library conversions whose result depends
  on floating point or on the codec. \<open>timedelta_us x\<close> is the number of microseconds to which
  \<^verbatim>\<open>timedelta(seconds=x)\<close> rounds, and \<open>None\<close> where \<open>x\<close> is beyond the range of the type.
\<close>

record world =
  makedirs_ok :: "event list \<Rightarrow> string \<Rightarrow> bool"
  exit_status :: "event list \<Rightarrow> string \<Rightarrow> int"
  stdout_of :: "event list \<Rightarrow> string \<Rightarrow> string"
  path_exists :: "event list \<Rightarrow> string \<Rightarrow> bool"
  remove_ok :: "event list \<Rightarrow> string \<Rightarrow> bool"
  load_model_ok :: "event list \<Rightarrow> string \<Rightarrow> bool"
  transcribe_result :: "event list \<Rightarrow> string \<Rightarrow> string \<Rightarrow> segment list option"
  save_ok :: "event list \<Rightarrow> string \<Rightarrow> bool"
  mkdtemp_result :: "event list \<Rightarrow> string option"
  write_ok :: "event list \<Rightarrow> string \<Rightarrow> bool"
  open_ok :: "event list \<Rightarrow> string \<Rightarrow> bool"
  decode_utf8 :: "string \<Rightarrow> string option"
  float_of_str :: "string \<Rightarrow> real option"
  timedelta_us :: "real \<Rightarrow> int option"

type_synonym 'a io = "event list \<Rightarrow> (exn + 'a) \<times> event list"

text \<open>\<^verbatim>\<open>os.makedirs(path, exist_ok=True)\<close>\<close>

definition os_makedirs :: "world \<Rightarrow> string \<Rightarrow> unit io" where
  "os_makedirs W path h =
     (let ok = makedirs_ok W h path
      in (if ok then Inr () else Inl OSError, h @ [Makedirs path ok]))"

text \<open>\<^verbatim>\<open>subprocess.run(cmd, shell=True, check=True)\<close>\<close>

definition subprocess_run :: "world \<Rightarrow> string \<Rightarrow> unit io" where
  "subprocess_run W cmd h =
     (let rc = exit_status W h cmd
      in (if rc \<noteq> 0 then Inl (CalledProcessError rc cmd) else Inr (), h @ [Shell cmd rc]))"

text \<open>\<^verbatim>\<open>subprocess.check_output(cmd, shell=True)\<close>\<close>

definition subprocess_check_output :: "world \<Rightarrow> string \<Rightarrow> string io" where
  "subprocess_check_output W cmd h =
     (let rc = exit_status W h cmd
      in (if rc \<noteq> 0 then Inl (CalledProcessError rc cmd) else Inr (stdout_of W h cmd),
          h @ [Shell cmd rc]))"

text \<open>\<^verbatim>\<open>os.path.exists(path)\<close>\<close>

definition os_path_exists :: "world \<Rightarrow> string \<Rightarrow> event list \<Rightarrow> bool \<times> event list" where
  "os_path_exists W path h = (let b = path_exists W h path in (b, h @ [Exists path b]))"

text \<open>\<^verbatim>\<open>os.remove(path)\<close>\<close>

definition os_remove :: "world \<Rightarrow> string \<Rightarrow> unit io" where
  "os_remove W path h =
     (let ok = remove_ok W h path
      in (if ok then Inr () else Inl OSError, h @ [Remove path ok]))"

section \<open>The command lines\<close>

text \<open>The f-strings of \<^verbatim>\<open>karaoke_engine.py\<close> and \<^verbatim>\<open>app.py\<close>, each under the name of the
  variable that holds it (those called \<^verbatim>\<open>cmd\<close> there are named after what they run).\<close>

definition extract_cmd :: "string \<Rightarrow> string \<Rightarrow> string" where
  \<open>extract_cmd video_path output_path =
     ''ffmpeg -i "'' @ video_path @ ''" -q:a 0 -map a "'' @ output_path @ ''" -y''\<close>

definition downsample_cmd :: "string \<Rightarrow> string \<Rightarrow> string" where
  \<open>downsample_cmd audio_path temp_audio =
     ''ffmpeg -i "'' @ audio_path @ ''" -ar 16000 -ac 1 "'' @ temp_audio @ ''" -y''\<close>

definition spleeter_mwf_cmd :: "string \<Rightarrow> string \<Rightarrow> string \<Rightarrow> string" where
  \<open>spleeter_mwf_cmd model output_dir temp_audio =
     ''spleeter separate -p '' @ model @ '' --mwf -o "'' @ output_dir @ ''" "'' @ temp_audio @ ''"''\<close>

definition spleeter_cmd :: "string \<Rightarrow> string \<Rightarrow> string \<Rightarrow> string" where
  \<open>spleeter_cmd model output_dir audio_path =
     ''spleeter separate -p '' @ model @ '' -o "'' @ output_dir @ ''" "'' @ audio_path @ ''"''\<close>

definition mix_cmd :: "string \<Rightarrow> string \<Rightarrow> string \<Rightarrow> string \<Rightarrow> string" where
  \<open>mix_cmd drums_path bass_path other_path instrumental_path =
     ''ffmpeg -i "'' @ drums_path @ ''" -i "'' @ bass_path @ ''" -i "'' @ other_path
     @ ''" -filter_complex "[0:a][1:a][2:a]amix=inputs=3:dropout_transition=0" "''
     @ instrumental_path @ ''" -y''\<close>

definition duration_cmd :: "string \<Rightarrow> string" where
  \<open>duration_cmd path =
     ''ffprobe -v error -show_entries format=duration -of default=noprint_wrappers=1:nokey=1 "''
     @ path @ ''"''\<close>

definition final_video_cmd :: "string \<Rightarrow> string \<Rightarrow> string \<Rightarrow> string \<Rightarrow> int \<Rightarrow> string" where
  \<open>final_video_cmd video_path instrumental_path subtitle_path_escaped output_path subtitle_font_size =
     ''ffmpeg -i "'' @ video_path @ ''" -i "'' @ instrumental_path @ ''" ''
     @ ''-vf "subtitles='' @ subtitle_path_escaped @ '':force_style='' @ [CHR 0x27]
     @ ''FontSize='' @ py_str_int subtitle_font_size @ [CHR 0x27] @ ''" ''
     @ ''-map 0:v -map 1:a -c:v libx264 -preset faster -crf 28 -c:a aac -b:a 128k ''
     @ ''"'' @ output_path @ ''" -y''\<close>

section \<open>karaoke\_engine.py\<close>

definition extract_audio :: "world \<Rightarrow> string \<Rightarrow> string \<Rightarrow> string io" where
  "extract_audio W video_path output_path h =
     (let cmd = extract_cmd video_path output_path
      in case subprocess_run W cmd h of
           (Inl e, h1) \<Rightarrow> (Inl e, h1)
         | (Inr u, h1) \<Rightarrow> (Inr output_path, h1))"

text \<open>
  \<^verbatim>\<open>separate_vocals(audio_path, output_dir, model)\<close>. The call of \<^verbatim>\<open>gc.collect()\<close>
  has no effect that the model could observe and is left out. The only handler is around
  the run of the separation engine; it catches \<^verbatim>\<open>CalledProcessError\<close> alone.
\<close>

function separate_vocals :: "world \<Rightarrow> string \<Rightarrow> string \<Rightarrow> string \<Rightarrow> string io" where
  "separate_vocals W audio_path output_dir model h =
     (case os_makedirs W output_dir h of
        (Inl e, h1) \<Rightarrow> (Inl e, h1)
      | (Inr u, h1) \<Rightarrow>
     (case (if py_in ''4stems'' model
            then (let temp_audio = os_path_join output_dir [''downsampled_audio.wav'']
                  in case subprocess_run W (downsample_cmd audio_path temp_audio) h1 of
                       (Inl e, h2) \<Rightarrow> (Inl e, h2)
                     | (Inr u, h2) \<Rightarrow> (Inr (spleeter_mwf_cmd model output_dir temp_audio), h2))
            else (Inr (spleeter_cmd model output_dir audio_path), h1)) of
        (Inl e, h2) \<Rightarrow> (Inl e, h2)
      | (Inr cmd, h2) \<Rightarrow>
     (case subprocess_run W cmd h2 of
        (Inl e, h3) \<Rightarrow>
          (if is_CalledProcessError e
           then (if py_in ''4stems'' model
                 then separate_vocals W audio_path output_dir ''spleeter:2stems''
                        (h3 @ [Print ''4stems model failed due to memory constraints, falling back to 2stems...''])
                 else (Inl e, h3))
           else (Inl e, h3))
      | (Inr u, h3) \<Rightarrow>
          (let base_name = splitext_root (os_path_basename audio_path)
           in if py_in ''4stems'' model
              then (case os_path_exists W (os_path_join output_dir [base_name, ''other.wav'']) h3 of
                      (True, h4) \<Rightarrow>
                        (let drums_path = os_path_join output_dir [base_name, ''drums.wav''];
                             bass_path = os_path_join output_dir [base_name, ''bass.wav''];
                             other_path = os_path_join output_dir [base_name, ''other.wav''];
                             instrumental_path = os_path_join output_dir [base_name, ''accompaniment.wav'']
                         in case subprocess_run W
                                   (mix_cmd drums_path bass_path other_path instrumental_path) h4 of
                              (Inl e, h5) \<Rightarrow> (Inl e, h5)
                            | (Inr u, h5) \<Rightarrow> (Inr instrumental_path, h5))
                    | (False, h4) \<Rightarrow>
                        (Inr (os_path_join output_dir [base_name, ''accompaniment.wav'']), h4))
              else (Inr (os_path_join output_dir [base_name, ''accompaniment.wav'']), h3)))))"
  by pat_completeness auto
termination
  by (relation "measure (\<lambda>(W, audio_path, output_dir, model, h). if py_in ''4stems'' model then 1 else 0)")
     simp_all

declare separate_vocals.simps [simp del]

text \<open>\<^verbatim>\<open>whisper.load_model(model_name)\<close> and \<^verbatim>\<open>model.transcribe(audio_path)["segments"]\<close>\<close>

definition whisper_load_model :: "world \<Rightarrow> string \<Rightarrow> unit io" where
  "whisper_load_model W model_name h =
     (let ok = load_model_ok W h model_name
      in (if ok then Inr () else Inl RuntimeError, h @ [LoadModel model_name ok]))"

definition whisper_transcribe :: "world \<Rightarrow> string \<Rightarrow> string \<Rightarrow> segment list io" where
  "whisper_transcribe W model_name audio_path h =
     (case transcribe_result W h model_name audio_path of
        None \<Rightarrow> (Inl RuntimeError, h @ [Transcribe model_name audio_path False])
      | Some segments \<Rightarrow> (Inr segments, h @ [Transcribe model_name audio_path True]))"

text \<open>
  Lines 77 to 87 of \<^verbatim>\<open>transcribe_audio\<close>: the \<^verbatim>\<open>try\<close> with the conversion of the
  probe's output and the downsampling. Its bare \<^verbatim>\<open>except: pass\<close> keeps whatever was
  assigned before the exception, so a failed downsampling leaves \<open>temp_audio\<close> set and
  \<open>audio_path\<close> as it was. The block yields \<open>temp_audio\<close> (\<open>None\<close> or the scratch path)
  and \<open>audio_path\<close>.
\<close>

definition downsample_long_audio ::
  "world \<Rightarrow> string \<Rightarrow> string \<Rightarrow> event list \<Rightarrow> (string option \<times> string) \<times> event list" where
  "downsample_long_audio W audio_path duration_output h =
     (case float_of_str W duration_output of
        None \<Rightarrow> ((None, audio_path), h)
      | Some duration \<Rightarrow>
          if duration > 180
          then (let temp_dir = os_path_dirname audio_path;
                    temp_audio = os_path_join temp_dir [''downsampled_for_whisper.wav'']
                in case subprocess_run W (downsample_cmd audio_path temp_audio) h of
                     (Inl e, h1) \<Rightarrow> ((Some temp_audio, audio_path), h1)
                   | (Inr u, h1) \<Rightarrow> ((Some temp_audio, temp_audio), h1))
          else ((None, audio_path), h))"

text \<open>Lines 93 to 98: the removal of the scratch file. A string is true when it is not
  empty; the bare \<^verbatim>\<open>except: pass\<close> drops the outcome of \<^verbatim>\<open>os.remove\<close>.\<close>

definition cleanup_temp_file :: "world \<Rightarrow> string option \<Rightarrow> event list \<Rightarrow> event list" where
  "cleanup_temp_file W temp_audio h =
     (case temp_audio of
        None \<Rightarrow> h
      | Some scratch \<Rightarrow>
          if scratch \<noteq> []
          then (case os_path_exists W scratch h of
                  (True, h1) \<Rightarrow> (case os_remove W scratch h1 of (r, h2) \<Rightarrow> h2)
                | (False, h1) \<Rightarrow> h1)
          else h)"

text \<open>
  \<^verbatim>\<open>transcribe_audio(audio_path, model_name)\<close>. The probe and the decoding of its
  output stand before the \<^verbatim>\<open>try\<close>; nothing encloses the two calls of the recognition
  engine. The import of the engine and \<^verbatim>\<open>gc.collect()\<close> are left out.
\<close>

definition transcribe_audio :: "world \<Rightarrow> string \<Rightarrow> string \<Rightarrow> segment list io" where
  "transcribe_audio W audio_path model_name h =
     (case subprocess_check_output W (duration_cmd audio_path) h of
        (Inl e, h1) \<Rightarrow> (Inl e, h1)
      | (Inr bytes, h1) \<Rightarrow>
      (case decode_utf8 W bytes of
         None \<Rightarrow> (Inl UnicodeDecodeError, h1)
       | Some text \<Rightarrow>
      (let duration_output = py_strip text
       in case downsample_long_audio W audio_path duration_output h1 of
            ((temp_audio, audio_path), h2) \<Rightarrow>
      (case whisper_load_model W model_name h2 of
         (Inl e, h3) \<Rightarrow> (Inl e, h3)
       | (Inr u, h3) \<Rightarrow>
      (case whisper_transcribe W model_name audio_path h3 of
         (Inl e, h4) \<Rightarrow> (Inl e, h4)
       | (Inr segments, h4) \<Rightarrow> (Inr segments, cleanup_temp_file W temp_audio h4))))))"

text \<open>\<^verbatim>\<open>timedelta(seconds=x)\<close>: it raises \<^verbatim>\<open>OverflowError\<close> beyond its range.\<close>

definition datetime_timedelta :: "world \<Rightarrow> real \<Rightarrow> exn + timedelta" where
  "datetime_timedelta W seconds =
     (case timedelta_us W seconds of
        None \<Rightarrow> Inl OverflowError
      | Some us \<Rightarrow> Inr (Timedelta us))"

text \<open>
  The subtitle library is not part of the repository; this is what its constructor does
  with the arguments that \<^verbatim>\<open>create_subtitles\<close> passes. \<^verbatim>\<open>SubRipItem(index, start, end, text)\<close>
  sets its two times to \<^verbatim>\<open>SubRipTime.coerce(start or 0)\<close> and
  \<^verbatim>\<open>SubRipTime.coerce(end or 0)\<close>. A \<^verbatim>\<open>timedelta\<close> is true when it is not zero, so a
  zero one gives \<^verbatim>\<open>coerce(0)\<close>, the time 0. \<^verbatim>\<open>coerce\<close> takes a \<^verbatim>\<open>SubRipTime\<close>, a
  string, an integer, a \<^verbatim>\<open>datetime.time\<close>, a mapping or an iterable; a \<^verbatim>\<open>timedelta\<close> is
  none of these and makes it raise \<^verbatim>\<open>TypeError\<close>.
\<close>

definition coerce_or_0 :: "timedelta \<Rightarrow> exn + subriptime" where
  "coerce_or_0 t = (if microseconds t \<noteq> 0 then Inl TypeError else Inr (SubRipTime 0))"

definition pysrt_SubRipItem :: "int \<Rightarrow> timedelta \<Rightarrow> timedelta \<Rightarrow> string \<Rightarrow> exn + subrip_item" where
  "pysrt_SubRipItem index start end text =
     (case coerce_or_0 start of
        Inl e \<Rightarrow> Inl e
      | Inr start_time \<Rightarrow>
          (case coerce_or_0 end of
             Inl e \<Rightarrow> Inl e
           | Inr end_time \<Rightarrow>
               Inr \<lparr>srt_index = index, srt_start = start_time, srt_end = end_time, srt_text = text\<rparr>))"

text \<open>The loop of \<^verbatim>\<open>create_subtitles\<close>: \<open>i\<close> is the counter of \<^verbatim>\<open>enumerate\<close>,
  \<open>subs\<close> the file built so far. An exception of a constructor ends it.\<close>

fun subtitle_loop ::
  "world \<Rightarrow> int \<Rightarrow> segment list \<Rightarrow> subrip_item list \<Rightarrow> exn + subrip_item list" where
  "subtitle_loop W i [] subs = Inr subs"
| "subtitle_loop W i (segment # segments) subs =
     (let start_time = seg_start segment;
          end_time = seg_end segment;
          text = py_strip (seg_text segment)
      in case datetime_timedelta W start_time of
           Inl e \<Rightarrow> Inl e
         | Inr start \<Rightarrow>
      (case datetime_timedelta W end_time of
         Inl e \<Rightarrow> Inl e
       | Inr end \<Rightarrow>
      (case pysrt_SubRipItem (i + 1) start end text of
         Inl e \<Rightarrow> Inl e
       | Inr item \<Rightarrow> subtitle_loop W (i + 1) segments (subs @ [item]))))"

text \<open>\<^verbatim>\<open>subs.save(output_path, encoding='utf-8')\<close>\<close>

definition subripfile_save :: "world \<Rightarrow> subrip_item list \<Rightarrow> string \<Rightarrow> unit io" where
  "subripfile_save W subs path h =
     (let ok = save_ok W h path
      in (if ok then Inr () else Inl OSError, h @ [SaveSrt path subs ok]))"

text \<open>\<^verbatim>\<open>create_subtitles(segments, output_path)\<close>: the file is saved only when the loop
  has gone through all segments.\<close>

definition create_subtitles :: "world \<Rightarrow> segment list \<Rightarrow> string \<Rightarrow> string io" where
  "create_subtitles W segments output_path h =
     (case subtitle_loop W 0 segments [] of
        Inl e \<Rightarrow> (Inl e, h)
      | Inr subs \<Rightarrow>
          (case subripfile_save W subs output_path h of
             (Inl e, h1) \<Rightarrow> (Inl e, h1)
           | (Inr u, h1) \<Rightarrow> (Inr output_path, h1)))"

definition create_final_video ::
  "world \<Rightarrow> string \<Rightarrow> string \<Rightarrow> string \<Rightarrow> string \<Rightarrow> int \<Rightarrow> string io" where
  "create_final_video W video_path instrumental_path subtitle_path output_path subtitle_font_size h =
     (let subtitle_path_escaped =
            py_replace CHR '':'' [CHR 0x5C, CHR '':'']
              (py_replace (CHR 0x5C) [CHR 0x5C, CHR 0x5C] subtitle_path);
          cmd = final_video_cmd video_path instrumental_path subtitle_path_escaped output_path
                  subtitle_font_size
      in case subprocess_run W cmd h of
           (Inl e, h1) \<Rightarrow> (Inl e, h1)
         | (Inr u, h1) \<Rightarrow> (Inr output_path, h1))"

section \<open>app.py\<close>

text \<open>The page imports the five functions above from a module that it calls
  \<^verbatim>\<open>karaoke_maker\<close>; the model takes them as they stand in \<^verbatim>\<open>karaoke_engine.py\<close>.
  The calls of the page library are events that never fail.\<close>

text \<open>\<^verbatim>\<open>tempfile.mkdtemp()\<close>, writing the upload to \<open>path\<close>, and opening \<open>path\<close> for reading.\<close>

definition tempfile_mkdtemp :: "world \<Rightarrow> string io" where
  "tempfile_mkdtemp W h =
     (let r = mkdtemp_result W h
      in (case r of None \<Rightarrow> Inl OSError | Some d \<Rightarrow> Inr d, h @ [Mkdtemp r]))"

definition write_upload :: "world \<Rightarrow> string \<Rightarrow> unit io" where
  "write_upload W path h =
     (let ok = write_ok W h path
      in (if ok then Inr () else Inl OSError, h @ [WriteFile path ok]))"

definition open_rb :: "world \<Rightarrow> string \<Rightarrow> unit io" where
  "open_rb W path h =
     (let ok = open_ok W h path
      in (if ok then Inr () else Inl OSError, h @ [OpenRead path ok]))"

text \<open>\<^verbatim>\<open>get_video_duration(video_path)\<close>: the whole body stands in a \<^verbatim>\<open>try\<close> whose
  bare \<^verbatim>\<open>except\<close> returns \<open>None\<close>.\<close>

definition get_video_duration :: "world \<Rightarrow> string \<Rightarrow> event list \<Rightarrow> real option \<times> event list" where
  "get_video_duration W video_path h =
     (let cmd = duration_cmd video_path
      in case subprocess_check_output W cmd h of
           (Inl e, h1) \<Rightarrow> (None, h1)
         | (Inr bytes, h1) \<Rightarrow>
             (case decode_utf8 W bytes of
                None \<Rightarrow> (None, h1)
              | Some output \<Rightarrow>
                  (case float_of_str W (py_strip output) of
                     None \<Rightarrow> (None, h1)
                   | Some x \<Rightarrow> (Some x, h1))))"

text \<open>Lines 124 to 133: the separation with the handler of the page.\<close>

definition separation_stage :: "world \<Rightarrow> string \<Rightarrow> string \<Rightarrow> string \<Rightarrow> string io" where
  "separation_stage W audio_path temp_dir separation_model h =
     (case separate_vocals W audio_path temp_dir separation_model h of
        (Inr instrumental_path, h1) \<Rightarrow> (Inr instrumental_path, h1 @ [Progress 50])
      | (Inl e, h1) \<Rightarrow>
          if is_CalledProcessError e
          then (if py_in ''4stems'' separation_model
                then (case separate_vocals W audio_path temp_dir ''spleeter:2stems''
                             (h1 @ [StWarning (Text ''The 4stems model failed due to memory limits. Falling back to 2stems...'')]) of
                        (Inl e2, h2) \<Rightarrow> (Inl e2, h2)
                      | (Inr instrumental_path, h2) \<Rightarrow> (Inr instrumental_path, h2 @ [Progress 50]))
                else (Inl e, h1))
          else (Inl e, h1))"

text \<open>Lines 136 to 140: the model handed to the transcription. A float is true when it
  is not zero.\<close>

definition select_model :: "real option \<Rightarrow> string \<Rightarrow> event list \<Rightarrow> string \<times> event list" where
  "select_model duration whisper_model h =
     (case duration of
        None \<Rightarrow> (whisper_model, h)
      | Some d \<Rightarrow>
          if d \<noteq> 0 \<and> d > 180 \<and> whisper_model \<noteq> ''tiny''
          then (''tiny'', h @ [StInfo (UsingTiny d)])
          else (whisper_model, h))"

definition remediation_hints :: string where
  "remediation_hints =
     (let indent = [CHR 0x0A] @ replicate 16 (CHR '' '')
      in indent @ ''1. Use a shorter video (less than 2 minutes)''
         @ indent @ ''2. Select the 2stems model instead of 4stems''
         @ indent @ ''3. Use the 'tiny' transcription model''
         @ indent @ ''4. Reduce the video resolution before uploading''
         @ indent)"

text \<open>The uploaded file and the four settings of the form.\<close>

record upload =
  upload_name :: string
  upload_size :: nat

record settings =
  whisper_model :: string
  separation_model :: string
  subtitle_font_size :: int
  keep_temp_files :: bool

text \<open>
  Lines 103 to 133, the body of the \<^verbatim>\<open>try\<close> up to the separation. It yields the
  duration that the page probed and the paths of the video, of its audio and of the
  instrumental track.
\<close>

definition stages_to_separation ::
  "world \<Rightarrow> upload \<Rightarrow> settings \<Rightarrow> string \<Rightarrow> (real option \<times> string \<times> string \<times> string) io" where
  "stages_to_separation W uploaded_file st temp_dir h =
     (let h1 = h @ [StatusText (Text ''Saving uploaded file...'')];
          input_path = os_path_join temp_dir [''input_video.mp4'']
      in case write_upload W input_path h1 of
           (Inl e, h2) \<Rightarrow> (Inl e, h2)
         | (Inr u, h2) \<Rightarrow>
     (case get_video_duration W input_path (h2 @ [Progress 10]) of
        (duration, h3) \<Rightarrow>
     (let h4 = (case duration of
                  None \<Rightarrow> h3
                | Some d \<Rightarrow> if d \<noteq> 0 \<and> d > 300 then h3 @ [StWarning (LongVideo d)] else h3);
          h5 = h4 @ [StatusText (Text ''Extracting audio from video...'')];
          audio_path = os_path_join temp_dir [''original_audio.wav'']
      in case extract_audio W input_path audio_path h5 of
           (Inl e, h6) \<Rightarrow> (Inl e, h6)
         | (Inr u, h6) \<Rightarrow>
     (let h7 = h6 @ [Progress 20,
                     StatusText (Text (''Separating vocals using '' @ separation_model st
                                       @ '' (this may take several minutes)...''))]
      in case separation_stage W audio_path temp_dir (separation_model st) h7 of
           (Inl e, h8) \<Rightarrow> (Inl e, h8)
         | (Inr instrumental_path, h8) \<Rightarrow>
             (Inr (duration, input_path, audio_path, instrumental_path), h8)))))"

text \<open>
  Lines 103 to 150, the body of the \<^verbatim>\<open>try\<close> up to the subtitle file: the stages above,
  the transcription and the subtitles. It yields the three paths that the composition needs.
\<close>

definition stages_to_subtitles ::
  "world \<Rightarrow> upload \<Rightarrow> settings \<Rightarrow> string \<Rightarrow> (string \<times> string \<times> string) io" where
  "stages_to_subtitles W uploaded_file st temp_dir h =
     (case stages_to_separation W uploaded_file st temp_dir h of
        (Inl e, h8) \<Rightarrow> (Inl e, h8)
      | (Inr (duration, input_path, audio_path, instrumental_path), h8) \<Rightarrow>
     (case select_model duration (whisper_model st) h8 of
        (actual_model, h9) \<Rightarrow>
     (let h10 = h9 @ [StatusText (Text (''Transcribing vocals using '' @ actual_model @ '' model...''))]
      in case transcribe_audio W audio_path actual_model h10 of
           (Inl e, h11) \<Rightarrow> (Inl e, h11)
         | (Inr segments, h11) \<Rightarrow>
     (let h12 = h11 @ [Progress 70, StatusText (Text ''Creating subtitle file...'')];
          subtitle_path = os_path_join temp_dir [''lyrics.srt'']
      in case create_subtitles W segments subtitle_path h12 of
           (Inl e, h13) \<Rightarrow> (Inl e, h13)
         | (Inr u, h13) \<Rightarrow> (Inr (input_path, instrumental_path, subtitle_path), h13)))))"

text \<open>Lines 103 to 177, the whole body: the stages above, then the composition of the
  final video and its delivery.\<close>

definition pipeline_try :: "world \<Rightarrow> upload \<Rightarrow> settings \<Rightarrow> string \<Rightarrow> string \<Rightarrow> unit io" where
  "pipeline_try W uploaded_file st temp_dir output_dir h =
     (case stages_to_subtitles W uploaded_file st temp_dir h of
        (Inl e, h13) \<Rightarrow> (Inl e, h13)
      | (Inr (input_path, instrumental_path, subtitle_path), h13) \<Rightarrow>
     (let h14 = h13 @ [Progress 80, StatusText (Text ''Creating final karaoke video...'')];
          output_path = os_path_join output_dir [''karaoke_output.mp4'']
      in case create_final_video W input_path instrumental_path subtitle_path output_path
                (subtitle_font_size st) h14 of
           (Inl e, h15) \<Rightarrow> (Inl e, h15)
         | (Inr u, h15) \<Rightarrow>
     (let h16 = h15 @ [Progress 100, StatusText GeneratedSuccessfully]
      in case open_rb W output_path h16 of
           (Inl e, h17) \<Rightarrow> (Inl e, h17)
         | (Inr u, h17) \<Rightarrow>
             (Inr (), h17 @ [DownloadButton ''karaoke_video.mp4'' ''video/mp4'',
                             StVideo output_path]))))"

text \<open>
  Lines 88 to 187: what pressing the button runs. Creating the directories and the
  progress bar stands before the \<^verbatim>\<open>try\<close>; its handler catches every exception
  of the body and shows it with the list of hints.
\<close>

definition generate_karaoke :: "world \<Rightarrow> upload \<Rightarrow> settings \<Rightarrow> unit io" where
  "generate_karaoke W uploaded_file st h =
     (let h1 = (if upload_size uploaded_file > 100 * 1024 * 1024
                then h @ [StWarning (LargeFile (upload_size uploaded_file))] else h)
      in case tempfile_mkdtemp W h1 of
           (Inl e, h2) \<Rightarrow> (Inl e, h2)
         | (Inr temp_dir, h2) \<Rightarrow>
     (let output_dir = os_path_join temp_dir [''output'']
      in case os_makedirs W output_dir h2 of
           (Inl e, h3) \<Rightarrow> (Inl e, h3)
         | (Inr u, h3) \<Rightarrow>
     (case pipeline_try W uploaded_file st temp_dir output_dir (h3 @ [ProgressBar 0]) of
        (Inl e, h4) \<Rightarrow>
          (Inr (), h4 @ [StError (ErrorOccurred e), StError (Text ''Try these solutions:''),
                         StMarkdown (Text remediation_hints)])
      | (Inr u, h4) \<Rightarrow> (Inr (), h4))))"

text \<open>The percentages passed to \<^verbatim>\<open>progress_bar.progress\<close>, in order, and the model
  names passed to \<^verbatim>\<open>whisper.load_model\<close>.\<close>

fun progress_values :: "event list \<Rightarrow> nat list" where
  "progress_values [] = []"
| "progress_values (Progress n # es) = n # progress_values es"
| "progress_values (e # es) = progress_values es"

fun loaded_models :: "event list \<Rightarrow> string list" where
  "loaded_models [] = []"
| "loaded_models (LoadModel name ok # es) = name # loaded_models es"
| "loaded_models (e # es) = loaded_models es"


section \<open>Names for the statements\<close>

text \<open>The two models that the form offers.\<close>

definition FourStem :: string where "FourStem = ''spleeter:4stems''"
definition TwoStem :: string where "TwoStem = ''spleeter:2stems''"

text \<open>The command of the engine in a FourStem call and in a TwoStem call.\<close>

definition fourstem_cmd :: "string \<Rightarrow> string" where
  "fourstem_cmd output_dir =
     spleeter_mwf_cmd FourStem output_dir (os_path_join output_dir [''downsampled_audio.wav''])"

definition twostem_cmd :: "string \<Rightarrow> string \<Rightarrow> string" where
  "twostem_cmd audio_path output_dir = spleeter_cmd TwoStem output_dir audio_path"

text \<open>The file \<open>name\<close> in the directory where the engine puts the stems of \<open>audio_path\<close>,
  and the scratch file of \<^verbatim>\<open>transcribe_audio\<close>.\<close>

definition stem_path :: "string \<Rightarrow> string \<Rightarrow> string \<Rightarrow> string" where
  "stem_path audio_path output_dir name =
     os_path_join output_dir [splitext_root (os_path_basename audio_path), name]"

definition scratch_path :: "string \<Rightarrow> string" where
  "scratch_path audio_path = os_path_join (os_path_dirname audio_path) [''downsampled_for_whisper.wav'']"

definition fallback_notice :: string where
  "fallback_notice = ''4stems model failed due to memory constraints, falling back to 2stems...''"

text \<open>The events of a FourStem call up to the run of the engine, which exits with \<open>rc\<close>.\<close>

definition fourstem_events :: "string \<Rightarrow> string \<Rightarrow> int \<Rightarrow> event list" where
  "fourstem_events audio_path output_dir rc =
     [Makedirs output_dir True,
      Shell (downsample_cmd audio_path (os_path_join output_dir [''downsampled_audio.wav''])) 0,
      Shell (fourstem_cmd output_dir) rc]"

text \<open>
  The exit status of the engine in a FourStem call that starts after the events \<open>h\<close>:
  \<open>None\<close> when the call does not get as far as the engine, because the directory cannot
  be made or the downsampling fails.
\<close>

definition fourstem_engine_exit :: "world \<Rightarrow> string \<Rightarrow> string \<Rightarrow> event list \<Rightarrow> int option" where
  "fourstem_engine_exit W audio_path output_dir h =
     (if makedirs_ok W h output_dir \<and>
         exit_status W (h @ [Makedirs output_dir True])
           (downsample_cmd audio_path (os_path_join output_dir [''downsampled_audio.wav''])) = 0
      then Some (exit_status W
                   (h @ [Makedirs output_dir True,
                         Shell (downsample_cmd audio_path
                                  (os_path_join output_dir [''downsampled_audio.wav''])) 0])
                   (fourstem_cmd output_dir))
      else None)"

text \<open>The same for a TwoStem call.\<close>

definition twostem_engine_exit :: "world \<Rightarrow> string \<Rightarrow> string \<Rightarrow> event list \<Rightarrow> int option" where
  "twostem_engine_exit W audio_path output_dir h =
     (if makedirs_ok W h output_dir
      then Some (exit_status W (h @ [Makedirs output_dir True]) (twostem_cmd audio_path output_dir))
      else None)"

text \<open>A world whose file system and commands answer the same whatever happened before.\<close>

definition history_free :: "world \<Rightarrow> bool" where
  "history_free W =
     (\<forall>h h' x. makedirs_ok W h x = makedirs_ok W h' x \<and> exit_status W h x = exit_status W h' x)"

text \<open>The text that the probe of \<^verbatim>\<open>transcribe_audio\<close> yields after the events \<open>h\<close>:
  \<open>None\<close> when the probe exits with an error or its output cannot be decoded.\<close>

definition probe_text :: "world \<Rightarrow> string \<Rightarrow> event list \<Rightarrow> string option" where
  "probe_text W path h =
     (if exit_status W h (duration_cmd path) = 0
      then decode_utf8 W (stdout_of W h (duration_cmd path))
      else None)"

text \<open>
  The run of \<^verbatim>\<open>transcribe_audio\<close> on audio that its probe reports as longer than 180
  seconds, up to and with the two calls of the recognition engine: the probe, the
  downsampling (exit status \<open>rc\<close>), \<^verbatim>\<open>load_model\<close>, \<^verbatim>\<open>transcribe\<close>.
\<close>

definition long_audio_recognition :: "world \<Rightarrow> string \<Rightarrow> string \<Rightarrow> segment list io" where
  "long_audio_recognition W audio_path model_name h =
     (let scratch = scratch_path audio_path;
          h1 = h @ [Shell (duration_cmd audio_path) 0];
          rc = exit_status W h1 (downsample_cmd audio_path scratch);
          h2 = h1 @ [Shell (downsample_cmd audio_path scratch) rc]
      in case whisper_load_model W model_name h2 of
           (Inl e, h3) \<Rightarrow> (Inl e, h3)
         | (Inr u, h3) \<Rightarrow>
             whisper_transcribe W model_name (if rc = 0 then scratch else audio_path) h3)"

text \<open>The model that the specification has the transcription called with, for the duration
  that the page knows and the model that the user requested.\<close>

definition policy_model :: "real option \<Rightarrow> string \<Rightarrow> string" where
  "policy_model duration requested =
     (case duration of
        None \<Rightarrow> requested
      | Some d \<Rightarrow> if d > 180 \<and> requested \<noteq> ''tiny'' then ''tiny'' else requested)"

text \<open>A segment whose start and end are both zero, to the microsecond.\<close>

definition zero_times :: "world \<Rightarrow> segment \<Rightarrow> bool" where
  "zero_times W segment =
     (timedelta_us W (seg_start segment) = Some 0 \<and> timedelta_us W (seg_end segment) = Some 0)"

text \<open>
  The composition of the final video completes in a run of the body of the \<^verbatim>\<open>try\<close>: the
  stages up to the subtitle file go through and \<^verbatim>\<open>create_final_video\<close> returns.
\<close>

definition composition_completes ::
  "world \<Rightarrow> upload \<Rightarrow> settings \<Rightarrow> string \<Rightarrow> string \<Rightarrow> event list \<Rightarrow> bool" where
  "composition_completes W uploaded_file st temp_dir output_dir h =
     (case stages_to_subtitles W uploaded_file st temp_dir h of
        (Inl e, h13) \<Rightarrow> False
      | (Inr (input_path, instrumental_path, subtitle_path), h13) \<Rightarrow>
          (case create_final_video W input_path instrumental_path subtitle_path
                  (os_path_join output_dir [''karaoke_output.mp4'']) (subtitle_font_size st)
                  (h13 @ [Progress 80, StatusText (Text ''Creating final karaoke video...'')]) of
             (Inl e, h15) \<Rightarrow> False
           | (Inr u, h15) \<Rightarrow> True))"

definition milestones :: "nat list" where
  "milestones = [10, 20, 50, 70, 80, 100]"

section \<open>Worlds and inputs for the examples\<close>

text \<open>A world in which every call succeeds, the probe reports four minutes and the
  recognition engine hears one line.\<close>

definition studio :: world where
  "studio =
     \<lparr>makedirs_ok = (\<lambda>h p. True),
      exit_status = (\<lambda>h c. 0),
      stdout_of = (\<lambda>h c. ''240.0'' @ [CHR 0x0A]),
      path_exists = (\<lambda>h p. True),
      remove_ok = (\<lambda>h p. True),
      load_model_ok = (\<lambda>h n. True),
      transcribe_result = (\<lambda>h n a. Some [\<lparr>seg_start = 0, seg_end = 5 / 2, seg_text = '' la la ''\<rparr>]),
      save_ok = (\<lambda>h p. True),
      mkdtemp_result = (\<lambda>h. Some ''/tmp/k''),
      write_ok = (\<lambda>h p. True),
      open_ok = (\<lambda>h p. True),
      decode_utf8 = Some,
      float_of_str = (\<lambda>s. if s = ''240.0'' then Some 240 else if s = ''180.0'' then Some 180 else None),
      timedelta_us = (\<lambda>x. Some (round (x * 1000000)))\<rparr>"

text \<open>Variations: the separation engine always fails; it fails for four stems only; the
  downsampling fails; the engine writes no stems; the recognition engine raises; the scratch
  file cannot be removed; there is no \<^verbatim>\<open>ffprobe\<close>.\<close>

definition engine_down :: world where
  "engine_down = studio\<lparr>exit_status := (\<lambda>h c. if prefix ''spleeter'' c then 1 else 0)\<rparr>"

definition fourstem_down :: world where
  "fourstem_down = studio\<lparr>exit_status := (\<lambda>h c. if py_in ''4stems'' c then 1 else 0)\<rparr>"

definition downsample_down :: world where
  "downsample_down = studio\<lparr>exit_status := (\<lambda>h c. if py_in ''-ar 16000'' c then 1 else 0)\<rparr>"

definition no_stems :: world where
  "no_stems = studio\<lparr>path_exists := (\<lambda>h p. False)\<rparr>"

definition whisper_down :: world where
  "whisper_down = studio\<lparr>transcribe_result := (\<lambda>h n a. None)\<rparr>"

definition locked_scratch :: world where
  "locked_scratch = studio\<lparr>remove_ok := (\<lambda>h p. False)\<rparr>"

definition no_ffprobe :: world where
  "no_ffprobe = studio\<lparr>exit_status := (\<lambda>h c. if prefix ''ffprobe'' c then 127 else 0)\<rparr>"

text \<open>More variations: the probe knows no duration for the video but one for its audio;
  the probe reports three minutes; the recognition engine hears nothing in the world where
  the FourStem run fails.\<close>

definition no_video_duration :: world where
  "no_video_duration =
     studio\<lparr>stdout_of := (\<lambda>h c. if c = duration_cmd ''/tmp/k/input_video.mp4''
                                then ''N/A'' @ [CHR 0x0A] else ''240.0'' @ [CHR 0x0A])\<rparr>"

definition three_minutes :: world where
  "three_minutes = studio\<lparr>stdout_of := (\<lambda>h c. ''180.0'' @ [CHR 0x0A])\<rparr>"

definition fourstem_down_silence :: world where
  "fourstem_down_silence = fourstem_down\<lparr>transcribe_result := (\<lambda>h n a. Some [])\<rparr>"

definition clip :: upload where
  "clip = \<lparr>upload_name = ''song.mp4'', upload_size = 5000000\<rparr>"

definition form :: settings where
  "form = \<lparr>whisper_model = ''base'', separation_model = ''spleeter:4stems'',
           subtitle_font_size = 24, keep_temp_files = False\<rparr>"

definition form2 :: settings where
  "form2 = \<lparr>whisper_model = ''base'', separation_model = ''spleeter:2stems'',
            subtitle_font_size = 24, keep_temp_files = False\<rparr>"

definition odd_segments :: "segment list" where
  "odd_segments =
     [\<lparr>seg_start = - 1, seg_end = 2, seg_text = '' one ''\<rparr>,
      \<lparr>seg_start = 7, seg_end = 3, seg_text = ''two''\<rparr>]"



section \<open>The separation and its fallback\<close>

text \<open>What a TwoStem call does, by the outcome of its two outside calls.\<close>

lemma separate_vocals_twostem:
  "separate_vocals W audio_path output_dir TwoStem h =
     (case twostem_engine_exit W audio_path output_dir h of
        None \<Rightarrow> (Inl OSError, h @ [Makedirs output_dir False])
      | Some rc \<Rightarrow>
          (if rc \<noteq> 0 then Inl (CalledProcessError rc (twostem_cmd audio_path output_dir))
           else Inr (stem_path audio_path output_dir ''accompaniment.wav''),
           h @ [Makedirs output_dir True, Shell (twostem_cmd audio_path output_dir) rc]))"
  by (subst separate_vocals.simps)
     (simp add: TwoStem_def twostem_cmd_def twostem_engine_exit_def stem_path_def os_makedirs_def
        subprocess_run_def Let_def)

text \<open>A FourStem call whose engine fails goes on as the TwoStem call.\<close>

lemma separate_vocals_fourstem_failed:
  assumes "fourstem_engine_exit W audio_path output_dir h = Some rc" and "rc \<noteq> 0"
  shows "separate_vocals W audio_path output_dir FourStem h =
         separate_vocals W audio_path output_dir TwoStem
           (h @ fourstem_events audio_path output_dir rc @ [Print fallback_notice])"
  using assms
  by (subst separate_vocals.simps)
     (auto simp add: FourStem_def TwoStem_def fourstem_cmd_def downsample_cmd_def
        fourstem_engine_exit_def fourstem_events_def fallback_notice_def os_makedirs_def
        subprocess_run_def Let_def split: if_splits)

text \<open>
  C1, as amended. When a FourStem call gets as far as the engine and the engine exits with
  an error, that error is not raised: the call prints a notice and goes on as a TwoStem call.
  It raises only when this second attempt fails, that is when the directory cannot be made
  or the TwoStem run of the engine exits with an error; otherwise it returns the path of
  the accompaniment.
\<close>

theorem fourstem_failure_degrades:
  assumes "fourstem_engine_exit W audio_path output_dir h = Some rc" and "rc \<noteq> 0"
  shows "separate_vocals W audio_path output_dir FourStem h =
         (let h4 = h @ fourstem_events audio_path output_dir rc @ [Print fallback_notice]
          in case twostem_engine_exit W audio_path output_dir h4 of
               None \<Rightarrow> (Inl OSError, h4 @ [Makedirs output_dir False])
             | Some rc2 \<Rightarrow>
                 (if rc2 \<noteq> 0 then Inl (CalledProcessError rc2 (twostem_cmd audio_path output_dir))
                  else Inr (stem_path audio_path output_dir ''accompaniment.wav''),
                  h4 @ [Makedirs output_dir True, Shell (twostem_cmd audio_path output_dir) rc2]))"
  by (simp only: separate_vocals_fourstem_failed [OF assms] separate_vocals_twostem Let_def)

text \<open>In a world where only the FourStem run fails, the call returns the TwoStem path.\<close>

theorem fourstem_failure_degrades_witness:
  "fourstem_engine_exit fourstem_down ''/tmp/k/original_audio.wav'' ''/tmp/k'' [] = Some 1
   \<and> (1::int) \<noteq> 0
   \<and> fst (separate_vocals fourstem_down ''/tmp/k/original_audio.wav'' ''/tmp/k'' FourStem [])
       = Inr ''/tmp/k/original_audio/accompaniment.wav''"
proof -
  have a: "fourstem_engine_exit fourstem_down ''/tmp/k/original_audio.wav'' ''/tmp/k'' [] = Some 1"
    by code_simp
  have b: "(1::int) \<noteq> 0" by simp
  have c: "fst (let h4 = [] @ fourstem_events ''/tmp/k/original_audio.wav'' ''/tmp/k'' 1
                         @ [Print fallback_notice]
           in case twostem_engine_exit fourstem_down ''/tmp/k/original_audio.wav'' ''/tmp/k'' h4 of
                None \<Rightarrow> (Inl OSError, h4 @ [Makedirs ''/tmp/k'' False])
              | Some rc2 \<Rightarrow>
                  (if rc2 \<noteq> 0
                   then Inl (CalledProcessError rc2 (twostem_cmd ''/tmp/k/original_audio.wav'' ''/tmp/k''))
                   else Inr (stem_path ''/tmp/k/original_audio.wav'' ''/tmp/k'' ''accompaniment.wav''),
                   h4 @ [Makedirs ''/tmp/k'' True,
                         Shell (twostem_cmd ''/tmp/k/original_audio.wav'' ''/tmp/k'') rc2]))
           = Inr ''/tmp/k/original_audio/accompaniment.wav''"
    by code_simp
  from fourstem_failure_degrades [OF a b] c
  have "fst (separate_vocals fourstem_down ''/tmp/k/original_audio.wav'' ''/tmp/k'' FourStem [])
        = Inr ''/tmp/k/original_audio/accompaniment.wav''"
    by simp
  with a b show ?thesis by simp
qed

text \<open>
  C1 as stated fails. Where the engine fails for every model, the FourStem call raises the
  error of its TwoStem attempt; where the downsampling fails, it raises before the handler
  is entered.
\<close>

theorem fourstem_never_raises_counterexample:
  "fst (separate_vocals engine_down ''/tmp/k/original_audio.wav'' ''/tmp/k'' FourStem [])
     = Inl (CalledProcessError 1 (twostem_cmd ''/tmp/k/original_audio.wav'' ''/tmp/k''))
   \<and> fst (separate_vocals downsample_down ''/tmp/k/original_audio.wav'' ''/tmp/k'' FourStem [])
     = Inl (CalledProcessError 1
              (downsample_cmd ''/tmp/k/original_audio.wav'' ''/tmp/k/downsampled_audio.wav''))"
  by code_simp

text \<open>Where the answers do not depend on the history, so does the result of a TwoStem call.\<close>

lemma twostem_history_free:
  assumes "history_free W"
  shows "fst (separate_vocals W audio_path output_dir TwoStem h) =
         fst (separate_vocals W audio_path output_dir TwoStem h')"
proof -
  from assms have "twostem_engine_exit W audio_path output_dir h =
                   twostem_engine_exit W audio_path output_dir h'"
    unfolding history_free_def twostem_engine_exit_def by metis
  then show ?thesis
    by (simp add: separate_vocals_twostem split: option.split)
qed

text \<open>
  C2. When the FourStem run of the engine exits with an error, the FourStem call yields
  exactly what the TwoStem call yields for the same audio file and directory, made after
  the events of the failed attempt: the same path or the same exception, and the same events.
  In a world whose answers do not depend on what happened before, this is also the result
  of the TwoStem call made in place of the FourStem call.
\<close>

theorem fallback_equivalence:
  assumes "fourstem_engine_exit W audio_path output_dir h = Some rc" and "rc \<noteq> 0"
  shows "separate_vocals W audio_path output_dir FourStem h =
         separate_vocals W audio_path output_dir TwoStem
           (h @ fourstem_events audio_path output_dir rc @ [Print fallback_notice])
       \<and> (history_free W \<longrightarrow>
            fst (separate_vocals W audio_path output_dir FourStem h) =
            fst (separate_vocals W audio_path output_dir TwoStem h))"
  using separate_vocals_fourstem_failed [OF assms] twostem_history_free [of W] by simp

theorem fallback_equivalence_witness:
  "fourstem_engine_exit engine_down ''/tmp/k/original_audio.wav'' ''/tmp/k'' [] = Some 1
   \<and> (1::int) \<noteq> 0
   \<and> history_free engine_down
   \<and> separate_vocals engine_down ''/tmp/k/original_audio.wav'' ''/tmp/k'' FourStem [] =
       separate_vocals engine_down ''/tmp/k/original_audio.wav'' ''/tmp/k'' TwoStem
         ([] @ fourstem_events ''/tmp/k/original_audio.wav'' ''/tmp/k'' 1 @ [Print fallback_notice])
   \<and> fst (separate_vocals engine_down ''/tmp/k/original_audio.wav'' ''/tmp/k'' FourStem []) =
       fst (separate_vocals engine_down ''/tmp/k/original_audio.wav'' ''/tmp/k'' TwoStem [])"
proof -
  have a: "fourstem_engine_exit engine_down ''/tmp/k/original_audio.wav'' ''/tmp/k'' [] = Some 1"
    by code_simp
  have b: "(1::int) \<noteq> 0" by simp
  have c: "history_free engine_down"
    by (simp add: history_free_def engine_down_def studio_def)
  from a b c fallback_equivalence [OF a b] show ?thesis by blast
qed

text \<open>
  C3, as amended. When the FourStem run of the engine exits with success and
  \<^verbatim>\<open>other.wav\<close> is not in the directory of the stems, the call runs nothing more: it
  returns the path where a TwoStem run would have put the accompaniment, without looking
  whether that file exists.
\<close>

theorem missing_stems_no_fallback:
  assumes "fourstem_engine_exit W audio_path output_dir h = Some 0"
      and "\<not> path_exists W (h @ fourstem_events audio_path output_dir 0)
               (stem_path audio_path output_dir ''other.wav'')"
  shows "separate_vocals W audio_path output_dir FourStem h =
         (Inr (stem_path audio_path output_dir ''accompaniment.wav''),
          h @ fourstem_events audio_path output_dir 0
            @ [Exists (stem_path audio_path output_dir ''other.wav'') False])"
  using assms
  by (subst separate_vocals.simps)
     (auto simp add: FourStem_def fourstem_cmd_def downsample_cmd_def
        fourstem_engine_exit_def fourstem_events_def os_makedirs_def os_path_exists_def
        subprocess_run_def stem_path_def Let_def split: if_splits)

theorem missing_stems_no_fallback_witness:
  "fourstem_engine_exit no_stems ''/tmp/k/original_audio.wav'' ''/tmp/k'' [] = Some 0
   \<and> \<not> path_exists no_stems ([] @ fourstem_events ''/tmp/k/original_audio.wav'' ''/tmp/k'' 0)
         (stem_path ''/tmp/k/original_audio.wav'' ''/tmp/k'' ''other.wav'')
   \<and> separate_vocals no_stems ''/tmp/k/original_audio.wav'' ''/tmp/k'' FourStem [] =
       (Inr (stem_path ''/tmp/k/original_audio.wav'' ''/tmp/k'' ''accompaniment.wav''),
        [] @ fourstem_events ''/tmp/k/original_audio.wav'' ''/tmp/k'' 0
           @ [Exists (stem_path ''/tmp/k/original_audio.wav'' ''/tmp/k'' ''other.wav'') False])"
proof -
  have a: "fourstem_engine_exit no_stems ''/tmp/k/original_audio.wav'' ''/tmp/k'' [] = Some 0"
    by code_simp
  have b: "\<not> path_exists no_stems ([] @ fourstem_events ''/tmp/k/original_audio.wav'' ''/tmp/k'' 0)
               (stem_path ''/tmp/k/original_audio.wav'' ''/tmp/k'' ''other.wav'')"
    by (simp add: no_stems_def)
  from a b missing_stems_no_fallback [OF a b] show ?thesis by blast
qed

text \<open>
  C3 as stated fails. The engine exits with success and writes no stems; the call makes no
  TwoStem run (its four events are all there is) and returns a path that does not exist.
\<close>

theorem missing_stems_fallback_counterexample:
  "separate_vocals no_stems ''/tmp/k/original_audio.wav'' ''/tmp/k'' FourStem [] =
     (Inr ''/tmp/k/original_audio/accompaniment.wav'',
      [Makedirs ''/tmp/k'' True,
       Shell (downsample_cmd ''/tmp/k/original_audio.wav'' ''/tmp/k/downsampled_audio.wav'') 0,
       Shell (fourstem_cmd ''/tmp/k'') 0,
       Exists ''/tmp/k/original_audio/other.wav'' False])
   \<and> \<not> path_exists no_stems
         (snd (separate_vocals no_stems ''/tmp/k/original_audio.wav'' ''/tmp/k'' FourStem []))
         ''/tmp/k/original_audio/accompaniment.wav''"
  by code_simp

text \<open>
  C4. When the TwoStem run of the engine exits with an error, the TwoStem call raises
  \<^verbatim>\<open>CalledProcessError\<close> with that exit status, and the run of the engine is the last
  thing it does.
\<close>

theorem twostem_failure_raises:
  assumes "twostem_engine_exit W audio_path output_dir h = Some rc" and "rc \<noteq> 0"
  shows "separate_vocals W audio_path output_dir TwoStem h =
         (Inl (CalledProcessError rc (twostem_cmd audio_path output_dir)),
          h @ [Makedirs output_dir True, Shell (twostem_cmd audio_path output_dir) rc])"
  using assms by (simp add: separate_vocals_twostem)

theorem twostem_failure_raises_witness:
  "twostem_engine_exit engine_down ''/tmp/k/original_audio.wav'' ''/tmp/k'' [] = Some 1
   \<and> (1::int) \<noteq> 0
   \<and> separate_vocals engine_down ''/tmp/k/original_audio.wav'' ''/tmp/k'' TwoStem [] =
       (Inl (CalledProcessError 1 (twostem_cmd ''/tmp/k/original_audio.wav'' ''/tmp/k'')),
        [] @ [Makedirs ''/tmp/k'' True, Shell (twostem_cmd ''/tmp/k/original_audio.wav'' ''/tmp/k'') 1])"
proof -
  have a: "twostem_engine_exit engine_down ''/tmp/k/original_audio.wav'' ''/tmp/k'' [] = Some 1"
    by code_simp
  have b: "(1::int) \<noteq> 0" by simp
  from a b twostem_failure_raises [OF a b] show ?thesis by blast
qed




section \<open>The transcription\<close>

lemma loaded_models_append [simp]:
  "loaded_models (xs @ ys) = loaded_models xs @ loaded_models ys"
  by (induction xs rule: loaded_models.induct) simp_all

lemma join_step_nonempty: "b \<noteq> [] \<Longrightarrow> join_step a b \<noteq> []"
  by (simp add: join_step_def)

lemma scratch_path_nonempty: "scratch_path audio_path \<noteq> []"
  by (simp add: scratch_path_def os_path_join_def join_step_nonempty)

lemma loaded_downsample_long_audio:
  "loaded_models (snd (downsample_long_audio W audio_path out h)) = loaded_models h"
  by (simp add: downsample_long_audio_def subprocess_run_def Let_def split: option.split)

lemma loaded_downsample_long_audio_eq:
  "downsample_long_audio W audio_path out h = (r, h') \<Longrightarrow> loaded_models h' = loaded_models h"
  using loaded_downsample_long_audio [of W audio_path out h] by simp

lemma loaded_cleanup_temp_file:
  "loaded_models (cleanup_temp_file W temp_audio h) = loaded_models h"
  by (simp add: cleanup_temp_file_def os_path_exists_def os_remove_def Let_def
      split: option.split bool.split)

lemma transcribe_audio_loads:
  "loaded_models (snd (transcribe_audio W audio_path model_name h)) =
     loaded_models h @ (case probe_text W audio_path h of None \<Rightarrow> [] | Some t \<Rightarrow> [model_name])"
  by (auto simp add: transcribe_audio_def probe_text_def subprocess_check_output_def
        whisper_load_model_def whisper_transcribe_def loaded_cleanup_temp_file Let_def
      split: option.split prod.split
      dest!: loaded_downsample_long_audio_eq)

lemma downsample_long_audio_long:
  assumes "float_of_str W out = Some d" and "d > 180"
  shows "downsample_long_audio W audio_path out h =
     (let rc = exit_status W h (downsample_cmd audio_path (scratch_path audio_path))
      in ((Some (scratch_path audio_path), if rc = 0 then scratch_path audio_path else audio_path),
          h @ [Shell (downsample_cmd audio_path (scratch_path audio_path)) rc]))"
  using assms
  by (simp add: downsample_long_audio_def scratch_path_def subprocess_run_def Let_def)

lemma cleanup_scratch:
  "cleanup_temp_file W (Some (scratch_path audio_path)) h =
     h @ (if path_exists W h (scratch_path audio_path)
          then [Exists (scratch_path audio_path) True,
                Remove (scratch_path audio_path)
                  (remove_ok W (h @ [Exists (scratch_path audio_path) True]) (scratch_path audio_path))]
          else [Exists (scratch_path audio_path) False])"
  by (simp add: cleanup_temp_file_def scratch_path_nonempty os_path_exists_def os_remove_def Let_def)

text \<open>
  C6, as amended. On audio that the probe reports as longer than 180 seconds: when one of
  the two calls of the recognition engine raises, \<^verbatim>\<open>transcribe_audio\<close> raises with it
  and does nothing more; when they return, it asks whether the scratch file exists and, if
  so, removes it at once, and it returns the segments whatever the removal's outcome.
\<close>

theorem scratch_removed_after_recognition:
  assumes "probe_text W audio_path h = Some t"
      and "float_of_str W (py_strip t) = Some d" and "d > 180"
  shows "transcribe_audio W audio_path model_name h =
     (case long_audio_recognition W audio_path model_name h of
        (Inl e, h4) \<Rightarrow> (Inl e, h4)
      | (Inr segments, h4) \<Rightarrow>
          (Inr segments,
           h4 @ (if path_exists W h4 (scratch_path audio_path)
                 then [Exists (scratch_path audio_path) True,
                       Remove (scratch_path audio_path)
                         (remove_ok W (h4 @ [Exists (scratch_path audio_path) True])
                            (scratch_path audio_path))]
                 else [Exists (scratch_path audio_path) False])))"
proof -
  have probe: "exit_status W h (duration_cmd audio_path) = 0"
    and decode: "decode_utf8 W (stdout_of W h (duration_cmd audio_path)) = Some t"
    using assms(1) by (simp_all add: probe_text_def split: if_splits)
  show ?thesis
    by (simp add: transcribe_audio_def long_audio_recognition_def subprocess_check_output_def
          probe decode downsample_long_audio_long [OF assms(2,3)] cleanup_scratch Let_def
        split: prod.split sum.split)
qed

text \<open>In a world where the scratch file cannot be removed the segments are returned all
  the same.\<close>

theorem scratch_removed_after_recognition_witness:
  "probe_text locked_scratch ''/tmp/k/original_audio.wav'' [] = Some (''240.0'' @ [CHR 0x0A])
   \<and> float_of_str locked_scratch (py_strip (''240.0'' @ [CHR 0x0A])) = Some 240
   \<and> (240::real) > 180
   \<and> transcribe_audio locked_scratch ''/tmp/k/original_audio.wav'' ''tiny'' [] =
       (Inr [\<lparr>seg_start = 0, seg_end = 5 / 2, seg_text = '' la la ''\<rparr>],
        [Shell (duration_cmd ''/tmp/k/original_audio.wav'') 0,
         Shell (downsample_cmd ''/tmp/k/original_audio.wav'' ''/tmp/k/downsampled_for_whisper.wav'') 0,
         LoadModel ''tiny'' True,
         Transcribe ''tiny'' ''/tmp/k/downsampled_for_whisper.wav'' True,
         Exists ''/tmp/k/downsampled_for_whisper.wav'' True,
         Remove ''/tmp/k/downsampled_for_whisper.wav'' False])"
proof -
  have a: "probe_text locked_scratch ''/tmp/k/original_audio.wav'' [] = Some (''240.0'' @ [CHR 0x0A])"
    by code_simp
  have b: "float_of_str locked_scratch (py_strip (''240.0'' @ [CHR 0x0A])) = Some 240"
    by code_simp
  have c: "(240::real) > 180" by simp
  have d: "(case long_audio_recognition locked_scratch ''/tmp/k/original_audio.wav'' ''tiny'' [] of
        (Inl e, h4) \<Rightarrow> (Inl e, h4)
      | (Inr segments, h4) \<Rightarrow>
          (Inr segments,
           h4 @ (if path_exists locked_scratch h4 (scratch_path ''/tmp/k/original_audio.wav'')
                 then [Exists (scratch_path ''/tmp/k/original_audio.wav'') True,
                       Remove (scratch_path ''/tmp/k/original_audio.wav'')
                         (remove_ok locked_scratch (h4 @ [Exists (scratch_path ''/tmp/k/original_audio.wav'') True])
                            (scratch_path ''/tmp/k/original_audio.wav''))]
                 else [Exists (scratch_path ''/tmp/k/original_audio.wav'') False]))) =
       (Inr [\<lparr>seg_start = 0, seg_end = 5 / 2, seg_text = '' la la ''\<rparr>],
        [Shell (duration_cmd ''/tmp/k/original_audio.wav'') 0,
         Shell (downsample_cmd ''/tmp/k/original_audio.wav'' ''/tmp/k/downsampled_for_whisper.wav'') 0,
         LoadModel ''tiny'' True,
         Transcribe ''tiny'' ''/tmp/k/downsampled_for_whisper.wav'' True,
         Exists ''/tmp/k/downsampled_for_whisper.wav'' True,
         Remove ''/tmp/k/downsampled_for_whisper.wav'' False])"
    by code_simp
  from scratch_removed_after_recognition [OF a b c, of "''tiny''"] d
  have "transcribe_audio locked_scratch ''/tmp/k/original_audio.wav'' ''tiny'' [] =
       (Inr [\<lparr>seg_start = 0, seg_end = 5 / 2, seg_text = '' la la ''\<rparr>],
        [Shell (duration_cmd ''/tmp/k/original_audio.wav'') 0,
         Shell (downsample_cmd ''/tmp/k/original_audio.wav'' ''/tmp/k/downsampled_for_whisper.wav'') 0,
         LoadModel ''tiny'' True,
         Transcribe ''tiny'' ''/tmp/k/downsampled_for_whisper.wav'' True,
         Exists ''/tmp/k/downsampled_for_whisper.wav'' True,
         Remove ''/tmp/k/downsampled_for_whisper.wav'' False])"
    by simp
  with a b c show ?thesis by blast
qed

text \<open>
  C6 as stated fails. The recognition engine raises on four minutes of audio: the call
  ends with the exception, no removal is among its events, and the scratch file that the
  downsampling wrote is still there.
\<close>

theorem cleanup_on_every_outcome_counterexample:
  "transcribe_audio whisper_down ''/tmp/k/original_audio.wav'' ''tiny'' [] =
     (Inl RuntimeError,
      [Shell (duration_cmd ''/tmp/k/original_audio.wav'') 0,
       Shell (downsample_cmd ''/tmp/k/original_audio.wav'' ''/tmp/k/downsampled_for_whisper.wav'') 0,
       LoadModel ''tiny'' True,
       Transcribe ''tiny'' ''/tmp/k/downsampled_for_whisper.wav'' False])
   \<and> path_exists whisper_down
        (snd (transcribe_audio whisper_down ''/tmp/k/original_audio.wav'' ''tiny'' []))
        ''/tmp/k/downsampled_for_whisper.wav''"
  by code_simp


section \<open>The subtitle file\<close>

text \<open>A segment whose start or end is not zero, to the microsecond, ends the loop with an
  exception: \<^verbatim>\<open>OverflowError\<close> of \<^verbatim>\<open>timedelta\<close> or \<^verbatim>\<open>TypeError\<close> of the item.\<close>

lemma subtitle_loop_raises:
  assumes "\<exists>segment \<in> set segments. \<not> zero_times W segment"
  shows "subtitle_loop W i segments subs = Inl TypeError \<or>
         subtitle_loop W i segments subs = Inl OverflowError"
  using assms
proof (induction segments arbitrary: i subs)
  case Nil
  then show ?case by simp
next
  case (Cons segment segments)
  show ?case
  proof (cases "zero_times W segment")
    case True
    with Cons.prems have "\<exists>s \<in> set segments. \<not> zero_times W s" by auto
    from Cons.IH [OF this] True show ?thesis
      by (simp add: zero_times_def datetime_timedelta_def pysrt_SubRipItem_def coerce_or_0_def)
  next
    case False
    then show ?thesis
      by (auto simp add: zero_times_def datetime_timedelta_def pysrt_SubRipItem_def coerce_or_0_def
               split: option.split)
  qed
qed

text \<open>Then \<^verbatim>\<open>create_subtitles\<close> raises and saves nothing.\<close>

lemma create_subtitles_raises:
  assumes "\<exists>segment \<in> set segments. \<not> zero_times W segment"
  shows "create_subtitles W segments output_path h = (Inl TypeError, h) \<or>
         create_subtitles W segments output_path h = (Inl OverflowError, h)"
  using subtitle_loop_raises [OF assms, of 0 "[]"]
  by (auto simp add: create_subtitles_def)

text \<open>Segments whose times are all zero go through, each to an entry with the next index,
  the time 0 twice and the stripped text.\<close>

lemma subtitle_loop_zero_times:
  assumes "\<forall>segment \<in> set segments. zero_times W segment"
  shows "subtitle_loop W i segments subs =
         Inr (subs @ map (\<lambda>(k, segment).
                             \<lparr>srt_index = i + int k + 1, srt_start = SubRipTime 0,
                              srt_end = SubRipTime 0, srt_text = py_strip (seg_text segment)\<rparr>)
                         (enumerate 0 segments))"
  using assms
proof (induction segments arbitrary: i subs)
  case Nil
  then show ?case by simp
next
  case (Cons segment segments)
  have shift: "enumerate (Suc 0) segments = map (\<lambda>(k, x). (Suc k, x)) (enumerate 0 segments)"
    by (simp add: enumerate_eq_zip map_Suc_upt [symmetric] zip_map1 del: upt_Suc)
  from Cons.prems have z: "zero_times W segment" and rest: "\<forall>s \<in> set segments. zero_times W s"
    by auto
  from z Cons.IH [OF rest] show ?case
    by (simp add: zero_times_def datetime_timedelta_def pysrt_SubRipItem_def coerce_or_0_def
          shift case_prod_beta comp_def add.assoc)
qed

lemma studio_times:
  "timedelta_us studio x = Some (round (x * 1000000))"
  "save_ok studio h p"
  by (simp_all add: studio_def)

text \<open>
  C8. One ordinary segment, from 0 to 2.5 seconds: \<^verbatim>\<open>create_subtitles\<close> raises
  \<^verbatim>\<open>TypeError\<close> when it makes the item and saves no file, where the claim has one entry
  written. Only for no segment at all does it save the file, empty.
\<close>

theorem subtitle_entries_type_error:
  "create_subtitles studio [\<lparr>seg_start = 0, seg_end = 5 / 2, seg_text = '' la la ''\<rparr>]
     ''/tmp/k/lyrics.srt'' [] = (Inl TypeError, [])
   \<and> create_subtitles studio [] ''/tmp/k/lyrics.srt'' [] =
       (Inr ''/tmp/k/lyrics.srt'', [SaveSrt ''/tmp/k/lyrics.srt'' [] True])"
  by (simp add: create_subtitles_def subripfile_save_def datetime_timedelta_def pysrt_SubRipItem_def
        coerce_or_0_def studio_times)

text \<open>
  C10. Segments with a negative start and with an end before the start:
  \<^verbatim>\<open>create_subtitles\<close> has no check of its own on them, but it raises \<^verbatim>\<open>TypeError\<close> at the
  first one and saves no file, where the claim has two entries written. A segment from 0 to
  0, which breaks the invariant too, is written as it is.
\<close>

theorem invalid_segments_type_error:
  "create_subtitles studio odd_segments ''/tmp/k/lyrics.srt'' [] = (Inl TypeError, [])
   \<and> create_subtitles studio [\<lparr>seg_start = 0, seg_end = 0, seg_text = ''two''\<rparr>] ''/tmp/k/lyrics.srt'' [] =
       (Inr ''/tmp/k/lyrics.srt'',
        [SaveSrt ''/tmp/k/lyrics.srt''
           [\<lparr>srt_index = 1, srt_start = SubRipTime 0, srt_end = SubRipTime 0, srt_text = ''two''\<rparr>] True])"
proof -
  have "py_strip ''two'' = ''two''" by code_simp
  then show ?thesis
    by (simp add: create_subtitles_def subripfile_save_def datetime_timedelta_def pysrt_SubRipItem_def
          coerce_or_0_def studio_times odd_segments_def)
qed


section \<open>The progress of a run\<close>

text \<open>No function of \<^verbatim>\<open>karaoke_engine.py\<close> reports progress; the page reports 50 after the
  separation, on either path of its handler.\<close>

lemma progress_values_append [simp]:
  "progress_values (xs @ ys) = progress_values xs @ progress_values ys"
  by (induction xs rule: progress_values.induct) simp_all

lemma progress_subprocess_run:
  "subprocess_run W cmd h = (r, h') \<Longrightarrow> progress_values h' = progress_values h"
  by (auto simp add: subprocess_run_def Let_def)

lemma progress_os_makedirs:
  "os_makedirs W path h = (r, h') \<Longrightarrow> progress_values h' = progress_values h"
  by (auto simp add: os_makedirs_def Let_def)

lemma progress_os_path_exists:
  "os_path_exists W path h = (r, h') \<Longrightarrow> progress_values h' = progress_values h"
  by (auto simp add: os_path_exists_def Let_def)

lemma progress_separate_vocals_plain:
  assumes "\<not> py_in ''4stems'' model"
      and "separate_vocals W audio_path output_dir model h = (r, h')"
  shows "progress_values h' = progress_values h"
  using assms
  by (subst (asm) separate_vocals.simps)
     (auto simp add: Let_def split: prod.splits sum.splits if_splits
           dest!: progress_subprocess_run progress_os_makedirs)

lemma progress_separate_vocals:
  assumes "separate_vocals W audio_path output_dir model h = (r, h')"
  shows "progress_values h' = progress_values h"
proof -
  have plain: "\<not> py_in ''4stems'' ''spleeter:2stems''" by simp
  from assms show ?thesis
    by (subst (asm) separate_vocals.simps)
       (auto simp add: Let_def split: prod.splits sum.splits if_splits bool.splits
             dest!: progress_subprocess_run progress_os_makedirs progress_os_path_exists
                    progress_separate_vocals_plain [OF plain])
qed

lemma progress_separation_stage:
  assumes "separation_stage W audio_path temp_dir model h = (r, h')"
  shows "progress_values h' = progress_values h @ (case r of Inl e \<Rightarrow> [] | Inr p \<Rightarrow> [50])"
  using assms
  by (auto simp add: separation_stage_def split: prod.splits sum.splits if_splits
           dest!: progress_separate_vocals)

lemma progress_extract_audio:
  "extract_audio W video_path output_path h = (r, h') \<Longrightarrow> progress_values h' = progress_values h"
  by (auto simp add: extract_audio_def Let_def split: prod.splits sum.splits
           dest!: progress_subprocess_run)

lemma progress_create_final_video:
  "create_final_video W v i s out fs h = (r, h') \<Longrightarrow> progress_values h' = progress_values h"
  by (auto simp add: create_final_video_def Let_def split: prod.splits sum.splits
           dest!: progress_subprocess_run)

lemma progress_create_subtitles:
  "create_subtitles W segments output_path h = (r, h') \<Longrightarrow> progress_values h' = progress_values h"
  by (auto simp add: create_subtitles_def subripfile_save_def Let_def split: prod.splits sum.splits)

lemma progress_get_video_duration:
  "get_video_duration W video_path h = (r, h') \<Longrightarrow> progress_values h' = progress_values h"
  by (auto simp add: get_video_duration_def subprocess_check_output_def Let_def
           split: prod.splits sum.splits option.splits if_splits)

lemma progress_select_model:
  "select_model duration m h = (r, h') \<Longrightarrow> progress_values h' = progress_values h"
  by (auto simp add: select_model_def split: option.splits if_splits)

lemma progress_downsample_long_audio:
  "downsample_long_audio W audio_path out h = (r, h') \<Longrightarrow> progress_values h' = progress_values h"
  by (auto simp add: downsample_long_audio_def Let_def split: option.splits if_splits prod.splits sum.splits
           dest!: progress_subprocess_run)

lemma progress_cleanup_temp_file:
  "progress_values (cleanup_temp_file W temp_audio h) = progress_values h"
  by (simp add: cleanup_temp_file_def os_path_exists_def os_remove_def Let_def
      split: option.split bool.split)

lemma progress_transcribe_audio:
  "transcribe_audio W audio_path model_name h = (r, h') \<Longrightarrow> progress_values h' = progress_values h"
  by (auto simp add: transcribe_audio_def subprocess_check_output_def whisper_load_model_def
             whisper_transcribe_def progress_cleanup_temp_file Let_def
           split: prod.splits sum.splits option.splits if_splits
           dest!: progress_downsample_long_audio)

lemma progress_write_upload:
  "write_upload W path h = (r, h') \<Longrightarrow> progress_values h' = progress_values h"
  by (auto simp add: write_upload_def Let_def)

lemma progress_open_rb:
  "open_rb W path h = (r, h') \<Longrightarrow> progress_values h' = progress_values h"
  by (auto simp add: open_rb_def Let_def)

lemma progress_tempfile_mkdtemp:
  "tempfile_mkdtemp W h = (r, h') \<Longrightarrow> progress_values h' = progress_values h"
  by (auto simp add: tempfile_mkdtemp_def Let_def)


lemma progress_stages_to_separation:
  assumes "stages_to_separation W uploaded_file st temp_dir h = (r, h')"
  shows "\<exists>ms. progress_values h' = progress_values h @ ms \<and>
              (case r of Inl e \<Rightarrow> prefix ms [10, 20] | Inr p \<Rightarrow> ms = [10, 20, 50])"
  using assms
  by (auto simp add: stages_to_separation_def Let_def
           split: prod.splits sum.splits option.splits if_splits
           dest!: progress_write_upload progress_get_video_duration progress_extract_audio
                  progress_separation_stage)

lemma progress_stages_to_subtitles:
  assumes "stages_to_subtitles W uploaded_file st temp_dir h = (r, h')"
  shows "\<exists>ms. progress_values h' = progress_values h @ ms \<and>
              (case r of Inl e \<Rightarrow> prefix ms [10, 20, 50, 70] | Inr p \<Rightarrow> ms = [10, 20, 50, 70])"
proof -
  obtain r0 h8 where first: "stages_to_separation W uploaded_file st temp_dir h = (r0, h8)"
    by (cases "stages_to_separation W uploaded_file st temp_dir h")
  from progress_stages_to_separation [OF first]
  obtain ms0 where ms0: "progress_values h8 = progress_values h @ ms0"
    and shape: "case r0 of Inl e \<Rightarrow> prefix ms0 [10, 20] | Inr p \<Rightarrow> ms0 = [10, 20, 50]"
    by blast
  show ?thesis
  proof (cases r0)
    case (Inl e)
    with shape have "prefix ms0 [10, 20]" by simp
    moreover have "prefix [10, 20] [10, 20, 50, 70 :: nat]" by simp
    ultimately have "prefix ms0 [10, 20, 50, 70]" by (rule prefix_order.trans)
    with assms first Inl ms0 show ?thesis
      by (auto simp add: stages_to_subtitles_def)
  next
    case (Inr p)
    with shape have "ms0 = [10, 20, 50]" by simp
    with assms first Inr ms0 show ?thesis
      by (auto simp add: stages_to_subtitles_def Let_def
               split: prod.splits sum.splits
               dest!: progress_select_model progress_transcribe_audio progress_create_subtitles)
  qed
qed

lemma prefix_sorted: "prefix xs ys \<Longrightarrow> sorted ys \<Longrightarrow> sorted xs"
  by (auto simp add: prefix_def sorted_append)

lemma progress_pipeline_try:
  "\<exists>ms. progress_values (snd (pipeline_try W uploaded_file st temp_dir output_dir h)) =
            progress_values h @ ms
        \<and> prefix ms milestones
        \<and> (100 \<in> set ms \<longleftrightarrow> composition_completes W uploaded_file st temp_dir output_dir h)"
proof -
  obtain r h13 where stages: "stages_to_subtitles W uploaded_file st temp_dir h = (r, h13)"
    by (cases "stages_to_subtitles W uploaded_file st temp_dir h")
  from progress_stages_to_subtitles [OF stages]
  obtain ms0 where ms0: "progress_values h13 = progress_values h @ ms0"
    and shape: "case r of Inl e \<Rightarrow> prefix ms0 [10, 20, 50, 70] | Inr p \<Rightarrow> ms0 = [10, 20, 50, 70]"
    by blast
  show ?thesis
  proof (cases r)
    case (Inl e)
    with shape have p: "prefix ms0 [10, 20, 50, 70]" by simp
    moreover have "prefix [10, 20, 50, 70] milestones"
      by (simp add: milestones_def)
    ultimately have "prefix ms0 milestones"
      by (rule prefix_order.trans)
    moreover from set_mono_prefix [OF p] have "100 \<notin> set ms0"
      by auto
    ultimately show ?thesis
      using stages Inl ms0
      by (simp add: pipeline_try_def composition_completes_def)
  next
    case (Inr paths)
    obtain input_path instrumental_path subtitle_path
      where paths: "paths = (input_path, instrumental_path, subtitle_path)"
      by (cases paths)
    from shape Inr have full: "ms0 = [10, 20, 50, 70]" by simp
    obtain r2 h15 where video:
      "create_final_video W input_path instrumental_path subtitle_path
         (os_path_join output_dir [''karaoke_output.mp4'']) (subtitle_font_size st)
         (h13 @ [Progress 80, StatusText (Text ''Creating final karaoke video...'')]) = (r2, h15)"
      by (cases "create_final_video W input_path instrumental_path subtitle_path
         (os_path_join output_dir [''karaoke_output.mp4'']) (subtitle_font_size st)
         (h13 @ [Progress 80, StatusText (Text ''Creating final karaoke video...'')])")
    from progress_create_final_video [OF video] ms0 full
    have h15: "progress_values h15 = progress_values h @ [10, 20, 50, 70, 80]" by simp
    show ?thesis
    proof (cases r2)
      case (Inl e)
      with stages Inr paths video h15 show ?thesis
        by (simp add: pipeline_try_def composition_completes_def milestones_def)
    next
      case (Inr u)
      obtain r3 h17 where opened:
        "open_rb W (os_path_join output_dir [''karaoke_output.mp4''])
           (h15 @ [Progress 100, StatusText GeneratedSuccessfully]) = (r3, h17)"
        by (cases "open_rb W (os_path_join output_dir [''karaoke_output.mp4''])
           (h15 @ [Progress 100, StatusText GeneratedSuccessfully])")
      from progress_open_rb [OF opened] h15
      have "progress_values h17 = progress_values h @ [10, 20, 50, 70, 80, 100]" by simp
      with stages \<open>r = Inr paths\<close> paths video Inr opened show ?thesis
        by (cases r3) (simp_all add: pipeline_try_def composition_completes_def milestones_def)
    qed
  qed
qed

lemma progress_generate_karaoke:
  "\<exists>ms. progress_values (snd (generate_karaoke W uploaded_file st h)) = progress_values h @ ms
        \<and> prefix ms milestones"
proof -
  define h1 where "h1 = (if upload_size uploaded_file > 100 * 1024 * 1024
                         then h @ [StWarning (LargeFile (upload_size uploaded_file))] else h)"
  have p1: "progress_values h1 = progress_values h"
    by (simp add: h1_def)
  have gen: "generate_karaoke W uploaded_file st h =
     (case tempfile_mkdtemp W h1 of
        (Inl e, h2) \<Rightarrow> (Inl e, h2)
      | (Inr temp_dir, h2) \<Rightarrow>
          (case os_makedirs W (os_path_join temp_dir [''output'']) h2 of
             (Inl e, h3) \<Rightarrow> (Inl e, h3)
           | (Inr u, h3) \<Rightarrow>
               (case pipeline_try W uploaded_file st temp_dir (os_path_join temp_dir [''output''])
                       (h3 @ [ProgressBar 0]) of
                  (Inl e, h4) \<Rightarrow>
                    (Inr (), h4 @ [StError (ErrorOccurred e), StError (Text ''Try these solutions:''),
                                   StMarkdown (Text remediation_hints)])
                | (Inr u, h4) \<Rightarrow> (Inr (), h4))))"
    unfolding generate_karaoke_def h1_def Let_def by (rule refl)
  obtain r2 h2 where made: "tempfile_mkdtemp W h1 = (r2, h2)"
    by (cases "tempfile_mkdtemp W h1")
  from progress_tempfile_mkdtemp [OF made] p1
  have p2: "progress_values h2 = progress_values h" by simp
  show ?thesis
  proof (cases r2)
    case (Inl e)
    with made p2 show ?thesis
      by (simp add: gen)
  next
    case (Inr temp_dir)
    obtain r3 h3 where dir: "os_makedirs W (os_path_join temp_dir [''output'']) h2 = (r3, h3)"
      by (cases "os_makedirs W (os_path_join temp_dir [''output'']) h2")
    from progress_os_makedirs [OF dir] p2
    have p3: "progress_values h3 = progress_values h" by simp
    show ?thesis
    proof (cases r3)
      case (Inl e)
      with made \<open>r2 = Inr temp_dir\<close> dir p3 show ?thesis
        by (simp add: gen)
    next
      case (Inr u)
      obtain r4 h4 where body:
        "pipeline_try W uploaded_file st temp_dir (os_path_join temp_dir [''output''])
           (h3 @ [ProgressBar 0]) = (r4, h4)"
        by (cases "pipeline_try W uploaded_file st temp_dir (os_path_join temp_dir [''output''])
           (h3 @ [ProgressBar 0])")
      from progress_pipeline_try [of W uploaded_file st temp_dir
             "os_path_join temp_dir [''output'']" "h3 @ [ProgressBar 0]"] body p3
      obtain ms where ms: "progress_values h4 = progress_values h @ ms" "prefix ms milestones"
        by auto
      with made \<open>r2 = Inr temp_dir\<close> dir Inr body show ?thesis
        by (cases r4) (simp_all add: gen)
    qed
  qed
qed

text \<open>
  C9. In every run of the body of the \<^verbatim>\<open>try\<close>, and so in every run that pressing the
  button starts, the percentages reported are a prefix of 10, 20, 50, 70, 80, 100: they never
  decrease and take no other value. This holds on the fallback paths of the separation as
  well, since each reports 50 once. 100 is reported exactly when the composition of the final
  video completes.
\<close>

theorem progress_milestones:
  "(\<exists>ms. progress_values (snd (pipeline_try W uploaded_file st temp_dir output_dir h)) =
             progress_values h @ ms
         \<and> prefix ms milestones \<and> sorted ms \<and> set ms \<subseteq> {10, 20, 50, 70, 80, 100}
         \<and> (100 \<in> set ms \<longleftrightarrow> composition_completes W uploaded_file st temp_dir output_dir h))
   \<and> (\<exists>ms. progress_values (snd (generate_karaoke W uploaded_file st h)) = progress_values h @ ms
         \<and> prefix ms milestones \<and> sorted ms \<and> set ms \<subseteq> {10, 20, 50, 70, 80, 100})"
proof -
  have inc: "sorted milestones" and vals: "set milestones = {10, 20, 50, 70, 80, 100}"
    by (simp_all add: milestones_def)
  from progress_pipeline_try [of W uploaded_file st temp_dir output_dir h]
  obtain ms where ms: "progress_values (snd (pipeline_try W uploaded_file st temp_dir output_dir h)) =
             progress_values h @ ms" "prefix ms milestones"
    "100 \<in> set ms \<longleftrightarrow> composition_completes W uploaded_file st temp_dir output_dir h"
    by blast
  from progress_generate_karaoke [of W uploaded_file st h]
  obtain ms' where ms': "progress_values (snd (generate_karaoke W uploaded_file st h)) =
             progress_values h @ ms'" "prefix ms' milestones"
    by blast
  from ms(2) ms'(2) have "sorted ms" "sorted ms'" "set ms \<subseteq> {10, 20, 50, 70, 80, 100}"
    "set ms' \<subseteq> {10, 20, 50, 70, 80, 100}"
    using prefix_sorted [OF _ inc] set_mono_prefix vals by blast+
  with ms ms' show ?thesis by blast
qed

text \<open>Evaluating runs in the example worlds: the definitions of the operations, and what the
  world where only the FourStem run fails answers, whatever the recognition engine hears.\<close>

lemmas io_defs = write_upload_def get_video_duration_def subprocess_check_output_def subprocess_run_def
  extract_audio_def separation_stage_def select_model_def transcribe_audio_def downsample_long_audio_def
  cleanup_temp_file_def whisper_load_model_def whisper_transcribe_def os_path_exists_def os_remove_def
  os_makedirs_def create_subtitles_def subripfile_save_def datetime_timedelta_def pysrt_SubRipItem_def
  coerce_or_0_def create_final_video_def open_rb_def tempfile_mkdtemp_def

lemma fourstem_down_fields:
  "makedirs_ok fourstem_down h p"
  "exit_status fourstem_down h c = (if py_in ''4stems'' c then 1 else 0)"
  "stdout_of fourstem_down h c =
     [CHR ''2'', CHR ''4'', CHR ''0'', CHR ''.'', CHR ''0'', CHR 0x0A]"
  "path_exists fourstem_down h p"
  "remove_ok fourstem_down h p"
  "load_model_ok fourstem_down h n"
  "transcribe_result fourstem_down h n a =
     Some [\<lparr>seg_start = 0, seg_end = 5 / 2, seg_text = '' la la ''\<rparr>]"
  "save_ok fourstem_down h p"
  "write_ok fourstem_down h p"
  "open_ok fourstem_down h p"
  "decode_utf8 fourstem_down s = Some s"
  "float_of_str fourstem_down ''240.0'' = Some 240"
  "timedelta_us fourstem_down x = Some (round (x * 1000000))"
  by (simp_all add: fourstem_down_def studio_def)

lemma strip_240: "py_strip [CHR ''2'', CHR ''4'', CHR ''0'', CHR ''.'', CHR ''0'', CHR 0x0A] = ''240.0''"
  by code_simp

lemma example_paths:
  "os_path_join ''/tmp/k'' [''input_video.mp4''] = ''/tmp/k/input_video.mp4''"
  "os_path_join ''/tmp/k'' [''original_audio.wav''] = ''/tmp/k/original_audio.wav''"
  "os_path_join ''/tmp/k'' [''lyrics.srt''] = ''/tmp/k/lyrics.srt''"
  "os_path_join ''/tmp/k'' [''downsampled_audio.wav''] = ''/tmp/k/downsampled_audio.wav''"
  "os_path_join ''/tmp/k/output'' [''karaoke_output.mp4''] = ''/tmp/k/output/karaoke_output.mp4''"
  "os_path_join (os_path_dirname ''/tmp/k/original_audio.wav'') [''downsampled_for_whisper.wav'']
     = ''/tmp/k/downsampled_for_whisper.wav''"
  "os_path_join ''/tmp/k'' [splitext_root (os_path_basename ''/tmp/k/original_audio.wav''), ''accompaniment.wav'']
     = ''/tmp/k/original_audio/accompaniment.wav''"
  by code_simp+

lemma example_cmds:
  "\<not> py_in ''4stems'' (duration_cmd ''/tmp/k/input_video.mp4'')"
  "\<not> py_in ''4stems'' (duration_cmd ''/tmp/k/original_audio.wav'')"
  "\<not> py_in ''4stems'' (extract_cmd ''/tmp/k/input_video.mp4'' ''/tmp/k/original_audio.wav'')"
  "\<not> py_in ''4stems'' (downsample_cmd ''/tmp/k/original_audio.wav'' ''/tmp/k/downsampled_audio.wav'')"
  "\<not> py_in ''4stems'' (downsample_cmd ''/tmp/k/original_audio.wav'' ''/tmp/k/downsampled_for_whisper.wav'')"
  "py_in ''4stems'' (spleeter_mwf_cmd ''spleeter:4stems'' ''/tmp/k'' ''/tmp/k/downsampled_audio.wav'')"
  "\<not> py_in ''4stems'' (spleeter_cmd ''spleeter:2stems'' ''/tmp/k'' ''/tmp/k/original_audio.wav'')"
  by code_simp+

lemma example_final_cmd:
  "\<not> py_in ''4stems'' (final_video_cmd ''/tmp/k/input_video.mp4'' ''/tmp/k/original_audio/accompaniment.wav''
       (py_replace CHR '':'' [CHR 0x5C, CHR '':''] (py_replace (CHR 0x5C) [CHR 0x5C, CHR 0x5C] ''/tmp/k/lyrics.srt''))
       ''/tmp/k/output/karaoke_output.mp4'' 24)"
  by code_simp

lemma example_separation:
  "separate_vocals (fourstem_down\<lparr>transcribe_result := f\<rparr>) ''/tmp/k/original_audio.wav'' ''/tmp/k''
     ''spleeter:4stems'' h =
   (Inr ''/tmp/k/original_audio/accompaniment.wav'',
    h @ [Makedirs ''/tmp/k'' True,
         Shell (downsample_cmd ''/tmp/k/original_audio.wav'' ''/tmp/k/downsampled_audio.wav'') 0,
         Shell (spleeter_mwf_cmd ''spleeter:4stems'' ''/tmp/k'' ''/tmp/k/downsampled_audio.wav'') 1,
         Print fallback_notice,
         Makedirs ''/tmp/k'' True,
         Shell (spleeter_cmd ''spleeter:2stems'' ''/tmp/k'' ''/tmp/k/original_audio.wav'') 0])"
  apply (subst separate_vocals.simps)
  apply (simp add: io_defs fourstem_down_fields example_paths example_cmds Let_def)
  apply (subst separate_vocals.simps)
  apply (simp add: io_defs fourstem_down_fields example_paths example_cmds fallback_notice_def Let_def)
  done

text \<open>Where the recognition engine hears nothing the run goes through; where it hears a
  line the subtitle file is not written and the run ends after the milestone 70.\<close>

lemma example_run_silence:
  "progress_values (snd (pipeline_try fourstem_down_silence clip form ''/tmp/k'' ''/tmp/k/output''
                           [ProgressBar 0]))
     = [10, 20, 50, 70, 80, 100]
   \<and> Print fallback_notice \<in> set (snd (pipeline_try fourstem_down_silence clip form ''/tmp/k''
                                          ''/tmp/k/output'' [ProgressBar 0]))"
  unfolding fourstem_down_silence_def
  by (simp add: pipeline_try_def stages_to_subtitles_def stages_to_separation_def io_defs
        fourstem_down_fields clip_def form_def strip_240 example_paths example_cmds example_final_cmd
        example_separation Let_def)

lemma example_run_line:
  "progress_values (snd (pipeline_try fourstem_down clip form ''/tmp/k'' ''/tmp/k/output''
                           [ProgressBar 0]))
     = [10, 20, 50, 70]"
proof -
  have w: "fourstem_down = fourstem_down\<lparr>transcribe_result := transcribe_result fourstem_down\<rparr>"
    by simp
  note separation = example_separation [where f = "transcribe_result fourstem_down", folded w]
  show ?thesis
    by (simp add: pipeline_try_def stages_to_subtitles_def stages_to_separation_def io_defs
          fourstem_down_fields clip_def form_def strip_240 example_paths example_cmds
          example_final_cmd separation Let_def)
qed

text \<open>Two runs in which the FourStem engine fails and the separation falls back: one reports
  all six milestones and the composition completes, the other stops after 70 and it does not.\<close>

theorem progress_milestones_witness:
  "progress_values (snd (pipeline_try fourstem_down_silence clip form ''/tmp/k'' ''/tmp/k/output''
                           [ProgressBar 0]))
     = progress_values [ProgressBar 0] @ [10, 20, 50, 70, 80, 100]
   \<and> Print fallback_notice
       \<in> set (snd (pipeline_try fourstem_down_silence clip form ''/tmp/k'' ''/tmp/k/output''
                      [ProgressBar 0]))
   \<and> composition_completes fourstem_down_silence clip form ''/tmp/k'' ''/tmp/k/output'' [ProgressBar 0]
   \<and> progress_values (snd (pipeline_try fourstem_down clip form ''/tmp/k'' ''/tmp/k/output''
                             [ProgressBar 0]))
     = progress_values [ProgressBar 0] @ [10, 20, 50, 70]
   \<and> \<not> composition_completes fourstem_down clip form ''/tmp/k'' ''/tmp/k/output'' [ProgressBar 0]"
proof -
  from progress_milestones [of fourstem_down_silence clip form "''/tmp/k''" "''/tmp/k/output''"
         "[ProgressBar 0]"]
  obtain ms where "progress_values (snd (pipeline_try fourstem_down_silence clip form ''/tmp/k''
                     ''/tmp/k/output'' [ProgressBar 0])) = progress_values [ProgressBar 0] @ ms"
    and "100 \<in> set ms \<longleftrightarrow>
         composition_completes fourstem_down_silence clip form ''/tmp/k'' ''/tmp/k/output''
           [ProgressBar 0]"
    by blast
  with example_run_silence
  have through: "composition_completes fourstem_down_silence clip form ''/tmp/k'' ''/tmp/k/output''
                   [ProgressBar 0]"
    by auto
  from progress_milestones [of fourstem_down clip form "''/tmp/k''" "''/tmp/k/output''"
         "[ProgressBar 0]"]
  obtain ms' where "progress_values (snd (pipeline_try fourstem_down clip form ''/tmp/k''
                     ''/tmp/k/output'' [ProgressBar 0])) = progress_values [ProgressBar 0] @ ms'"
    and "100 \<in> set ms' \<longleftrightarrow>
         composition_completes fourstem_down clip form ''/tmp/k'' ''/tmp/k/output'' [ProgressBar 0]"
    by blast
  with example_run_line
  have "\<not> composition_completes fourstem_down clip form ''/tmp/k'' ''/tmp/k/output'' [ProgressBar 0]"
    by auto
  with through example_run_silence example_run_line show ?thesis by simp
qed


section \<open>The probe of the duration\<close>

lemma no_ffprobe_fields:
  "makedirs_ok no_ffprobe h p"
  "exit_status no_ffprobe h c = (if prefix ''ffprobe'' c then 127 else 0)"
  "mkdtemp_result no_ffprobe h = Some ''/tmp/k''"
  "write_ok no_ffprobe h p"
  by (simp_all add: no_ffprobe_def studio_def)

lemma ffprobe_cmds:
  "prefix ''ffprobe'' (duration_cmd p)"
  "\<not> prefix ''ffprobe'' (extract_cmd v a)"
  "\<not> prefix ''ffprobe'' (spleeter_cmd m d a)"
  by (simp_all add: duration_cmd_def extract_cmd_def spleeter_cmd_def)

lemma example_paths_output:
  "os_path_join ''/tmp/k'' [''output''] = ''/tmp/k/output''"
  by code_simp

lemma no_ffprobe_separation:
  "separate_vocals no_ffprobe ''/tmp/k/original_audio.wav'' ''/tmp/k'' ''spleeter:2stems'' h =
   (Inr ''/tmp/k/original_audio/accompaniment.wav'',
    h @ [Makedirs ''/tmp/k'' True,
         Shell (spleeter_cmd ''spleeter:2stems'' ''/tmp/k'' ''/tmp/k/original_audio.wav'') 0])"
  by (subst separate_vocals.simps)
     (simp add: io_defs no_ffprobe_fields example_paths ffprobe_cmds Let_def)

lemma no_ffprobe_run:
  "generate_karaoke no_ffprobe clip (form\<lparr>separation_model := TwoStem\<rparr>) [] =
     (Inr (),
      [Mkdtemp (Some ''/tmp/k''),
       Makedirs ''/tmp/k/output'' True,
       ProgressBar 0,
       StatusText (Text ''Saving uploaded file...''),
       WriteFile ''/tmp/k/input_video.mp4'' True,
       Progress 10,
       Shell (duration_cmd ''/tmp/k/input_video.mp4'') 127,
       StatusText (Text ''Extracting audio from video...''),
       Shell (extract_cmd ''/tmp/k/input_video.mp4'' ''/tmp/k/original_audio.wav'') 0,
       Progress 20,
       StatusText (Text ''Separating vocals using spleeter:2stems (this may take several minutes)...''),
       Makedirs ''/tmp/k'' True,
       Shell (spleeter_cmd ''spleeter:2stems'' ''/tmp/k'' ''/tmp/k/original_audio.wav'') 0,
       Progress 50,
       StatusText (Text ''Transcribing vocals using base model...''),
       Shell (duration_cmd ''/tmp/k/original_audio.wav'') 127,
       StError (ErrorOccurred (CalledProcessError 127 (duration_cmd ''/tmp/k/original_audio.wav''))),
       StError (Text ''Try these solutions:''),
       StMarkdown (Text remediation_hints)])"
  by (simp add: generate_karaoke_def pipeline_try_def stages_to_subtitles_def
        stages_to_separation_def io_defs no_ffprobe_fields
        clip_def form_def TwoStem_def example_paths example_paths_output ffprobe_cmds
        no_ffprobe_separation Let_def)

text \<open>
  C7. Where \<^verbatim>\<open>ffprobe\<close> cannot be run (the shell exits with 127),
  \<^verbatim>\<open>get_video_duration\<close> returns \<open>None\<close> and the page goes on; but the probe of
  \<^verbatim>\<open>transcribe_audio\<close> stands outside its \<^verbatim>\<open>try\<close>, the call raises
  \<^verbatim>\<open>CalledProcessError\<close>, and the run ends in the handler of the page after the
  milestone 50.
\<close>

theorem probe_failure_aborts_transcription:
  "get_video_duration no_ffprobe ''/tmp/k/input_video.mp4'' [] =
     (None, [Shell (duration_cmd ''/tmp/k/input_video.mp4'') 127])
   \<and> transcribe_audio no_ffprobe ''/tmp/k/original_audio.wav'' ''base'' [] =
     (Inl (CalledProcessError 127 (duration_cmd ''/tmp/k/original_audio.wav'')),
      [Shell (duration_cmd ''/tmp/k/original_audio.wav'') 127])
   \<and> progress_values (snd (generate_karaoke no_ffprobe clip (form\<lparr>separation_model := TwoStem\<rparr>) []))
       = [10, 20, 50]
   \<and> StError (ErrorOccurred (CalledProcessError 127 (duration_cmd ''/tmp/k/original_audio.wav'')))
       \<in> set (snd (generate_karaoke no_ffprobe clip (form\<lparr>separation_model := TwoStem\<rparr>) []))"
proof -
  have "get_video_duration no_ffprobe ''/tmp/k/input_video.mp4'' [] =
     (None, [Shell (duration_cmd ''/tmp/k/input_video.mp4'') 127])"
    by code_simp
  moreover have "transcribe_audio no_ffprobe ''/tmp/k/original_audio.wav'' ''base'' [] =
     (Inl (CalledProcessError 127 (duration_cmd ''/tmp/k/original_audio.wav'')),
      [Shell (duration_cmd ''/tmp/k/original_audio.wav'') 127])"
    by code_simp
  ultimately show ?thesis
    by (simp add: no_ffprobe_run)
qed


section \<open>The model handed to the recognition engine\<close>

text \<open>Only \<^verbatim>\<open>whisper.load_model\<close> adds to the models loaded; every other call leaves
  them as they were.\<close>

lemma loaded_subprocess_run:
  "subprocess_run W cmd h = (r, h') \<Longrightarrow> loaded_models h' = loaded_models h"
  by (auto simp add: subprocess_run_def Let_def)

lemma loaded_os_makedirs:
  "os_makedirs W path h = (r, h') \<Longrightarrow> loaded_models h' = loaded_models h"
  by (auto simp add: os_makedirs_def Let_def)

lemma loaded_os_path_exists:
  "os_path_exists W path h = (r, h') \<Longrightarrow> loaded_models h' = loaded_models h"
  by (auto simp add: os_path_exists_def Let_def)

lemma loaded_separate_vocals_plain:
  assumes "\<not> py_in ''4stems'' model"
      and "separate_vocals W audio_path output_dir model h = (r, h')"
  shows "loaded_models h' = loaded_models h"
  using assms
  by (subst (asm) separate_vocals.simps)
     (auto simp add: Let_def split: prod.splits sum.splits if_splits
           dest!: loaded_subprocess_run loaded_os_makedirs)

lemma loaded_separate_vocals:
  assumes "separate_vocals W audio_path output_dir model h = (r, h')"
  shows "loaded_models h' = loaded_models h"
proof -
  have plain: "\<not> py_in ''4stems'' ''spleeter:2stems''" by simp
  from assms show ?thesis
    by (subst (asm) separate_vocals.simps)
       (auto simp add: Let_def split: prod.splits sum.splits if_splits bool.splits
             dest!: loaded_subprocess_run loaded_os_makedirs loaded_os_path_exists
                    loaded_separate_vocals_plain [OF plain])
qed

lemma loaded_separation_stage:
  "separation_stage W audio_path temp_dir model h = (r, h') \<Longrightarrow> loaded_models h' = loaded_models h"
  by (auto simp add: separation_stage_def split: prod.splits sum.splits if_splits
           dest!: loaded_separate_vocals)

lemma loaded_extract_audio:
  "extract_audio W video_path output_path h = (r, h') \<Longrightarrow> loaded_models h' = loaded_models h"
  by (auto simp add: extract_audio_def Let_def split: prod.splits sum.splits
           dest!: loaded_subprocess_run)

lemma loaded_get_video_duration:
  "get_video_duration W video_path h = (r, h') \<Longrightarrow> loaded_models h' = loaded_models h"
  by (auto simp add: get_video_duration_def subprocess_check_output_def Let_def
           split: prod.splits sum.splits option.splits if_splits)

lemma loaded_write_upload:
  "write_upload W path h = (r, h') \<Longrightarrow> loaded_models h' = loaded_models h"
  by (auto simp add: write_upload_def Let_def)

lemma loaded_open_rb:
  "open_rb W path h = (r, h') \<Longrightarrow> loaded_models h' = loaded_models h"
  by (auto simp add: open_rb_def Let_def)

lemma loaded_create_final_video:
  "create_final_video W v i s out fs h = (r, h') \<Longrightarrow> loaded_models h' = loaded_models h"
  by (auto simp add: create_final_video_def Let_def split: prod.splits sum.splits
           dest!: loaded_subprocess_run)

lemma loaded_create_subtitles:
  "create_subtitles W segments output_path h = (r, h') \<Longrightarrow> loaded_models h' = loaded_models h"
  by (auto simp add: create_subtitles_def subripfile_save_def Let_def split: prod.splits sum.splits)

lemma loaded_stages_to_separation:
  "stages_to_separation W uploaded_file st temp_dir h = (r, h') \<Longrightarrow>
   loaded_models h' = loaded_models h"
  by (auto simp add: stages_to_separation_def Let_def
           split: prod.splits sum.splits option.splits if_splits
           dest!: loaded_write_upload loaded_get_video_duration loaded_extract_audio
                  loaded_separation_stage)

text \<open>The page chooses the model as the specification has it, and shows at most a note.\<close>

lemma select_model_policy:
  "fst (select_model duration requested h) = policy_model duration requested"
  by (auto simp add: select_model_def policy_model_def split: option.splits)

lemma select_model_history:
  "select_model duration requested h = (m, h') \<Longrightarrow>
   m = policy_model duration requested \<and> h' = snd (select_model duration requested h)
   \<and> loaded_models h' = loaded_models h"
  by (auto simp add: select_model_def policy_model_def split: option.splits if_splits)

lemma transcribe_audio_loads_eq:
  "transcribe_audio W audio_path model_name h = (r, h') \<Longrightarrow>
   loaded_models h' =
     loaded_models h @ (case probe_text W audio_path h of None \<Rightarrow> [] | Some t \<Rightarrow> [model_name])"
  using transcribe_audio_loads [of W audio_path model_name h] by simp

text \<open>A run up to the subtitle file loads what its transcription loads.\<close>

lemma loaded_stages_to_subtitles_failed:
  assumes "stages_to_separation W uploaded_file st temp_dir h = (Inl e, h8)"
  shows "loaded_models (snd (stages_to_subtitles W uploaded_file st temp_dir h)) = loaded_models h"
  using assms loaded_stages_to_separation [OF assms]
  by (simp add: stages_to_subtitles_def)

lemma loaded_stages_to_subtitles_passed:
  assumes "stages_to_separation W uploaded_file st temp_dir h =
             (Inr (duration, input_path, audio_path, instrumental_path), h8)"
  shows "loaded_models (snd (stages_to_subtitles W uploaded_file st temp_dir h)) =
         loaded_models h @
         (case probe_text W audio_path
                 (snd (select_model duration (whisper_model st) h8)
                  @ [StatusText (Text (''Transcribing vocals using ''
                                       @ policy_model duration (whisper_model st) @ '' model...''))]) of
            None \<Rightarrow> []
          | Some t \<Rightarrow> [policy_model duration (whisper_model st)])"
proof -
  obtain r h' where run: "stages_to_subtitles W uploaded_file st temp_dir h = (r, h')"
    by (cases "stages_to_subtitles W uploaded_file st temp_dir h")
  from run assms loaded_stages_to_separation [OF assms]
  have "loaded_models h' =
         loaded_models h @
         (case probe_text W audio_path
                 (snd (select_model duration (whisper_model st) h8)
                  @ [StatusText (Text (''Transcribing vocals using ''
                                       @ policy_model duration (whisper_model st) @ '' model...''))]) of
            None \<Rightarrow> []
          | Some t \<Rightarrow> [policy_model duration (whisper_model st)])"
    by (auto simp add: stages_to_subtitles_def Let_def
             split: prod.splits sum.splits
             dest!: select_model_history transcribe_audio_loads_eq loaded_create_subtitles)
  with run show ?thesis by simp
qed

lemma loaded_pipeline_try:
  assumes "pipeline_try W uploaded_file st temp_dir output_dir h = (r, h')"
  shows "loaded_models h' = loaded_models (snd (stages_to_subtitles W uploaded_file st temp_dir h))"
  using assms
  by (auto simp add: pipeline_try_def Let_def split: prod.splits sum.splits
           dest!: loaded_create_final_video loaded_open_rb)

text \<open>
  C5. In every run of the body of the page the recognition engine is loaded at most once,
  and then with the model of the specification's policy for the duration that the page
  probed and the model that the user requested: \<^verbatim>\<open>tiny\<close> for a known duration above
  180 seconds and a request other than \<^verbatim>\<open>tiny\<close>; the requested model for a duration
  of at most 180 seconds, an unknown duration or the request \<^verbatim>\<open>tiny\<close>. It is loaded
  exactly when the stages up to the separation go through and the probe of
  \<^verbatim>\<open>transcribe_audio\<close> yields a text.
\<close>

theorem transcription_model_policy:
  "loaded_models (snd (pipeline_try W uploaded_file st temp_dir output_dir h)) =
   loaded_models h @
   (case stages_to_separation W uploaded_file st temp_dir h of
      (Inl e, h8) \<Rightarrow> []
    | (Inr (duration, input_path, audio_path, instrumental_path), h8) \<Rightarrow>
        (case probe_text W audio_path
                (snd (select_model duration (whisper_model st) h8)
                 @ [StatusText (Text (''Transcribing vocals using ''
                                      @ policy_model duration (whisper_model st) @ '' model...''))]) of
           None \<Rightarrow> []
         | Some t \<Rightarrow> [policy_model duration (whisper_model st)]))"
proof -
  obtain r h' where run: "pipeline_try W uploaded_file st temp_dir output_dir h = (r, h')"
    by (cases "pipeline_try W uploaded_file st temp_dir output_dir h")
  from loaded_pipeline_try [OF run] run
  have whole: "loaded_models (snd (pipeline_try W uploaded_file st temp_dir output_dir h)) =
               loaded_models (snd (stages_to_subtitles W uploaded_file st temp_dir h))"
    by simp
  obtain r0 h8 where first: "stages_to_separation W uploaded_file st temp_dir h = (r0, h8)"
    by (cases "stages_to_separation W uploaded_file st temp_dir h")
  show ?thesis
  proof (cases r0)
    case (Inl e)
    with first loaded_stages_to_subtitles_failed [of W uploaded_file st temp_dir h e h8] whole
    show ?thesis by simp
  next
    case (Inr p)
    obtain duration input_path audio_path instrumental_path
      where p: "p = (duration, input_path, audio_path, instrumental_path)"
      by (cases p) auto
    from first Inr p
    have passed: "stages_to_separation W uploaded_file st temp_dir h =
                    (Inr (duration, input_path, audio_path, instrumental_path), h8)"
      by simp
    from loaded_stages_to_subtitles_passed [OF passed] whole passed
    show ?thesis by simp
  qed
qed

text \<open>Four worlds for the examples: what each answers to the calls up to the transcription.\<close>

lemma studio_fields:
  "write_ok studio h p"
  "makedirs_ok studio h p"
  "exit_status studio h c = 0"
  "stdout_of studio h c = [CHR ''2'', CHR ''4'', CHR ''0'', CHR ''.'', CHR ''0'', CHR 0x0A]"
  "decode_utf8 studio s = Some s"
  "float_of_str studio ''240.0'' = Some 240"
  by (simp_all add: studio_def)

lemma three_minutes_fields:
  "write_ok three_minutes h p"
  "makedirs_ok three_minutes h p"
  "exit_status three_minutes h c = 0"
  "stdout_of three_minutes h c = [CHR ''1'', CHR ''8'', CHR ''0'', CHR ''.'', CHR ''0'', CHR 0x0A]"
  "decode_utf8 three_minutes s = Some s"
  "float_of_str three_minutes ''180.0'' = Some 180"
  by (simp_all add: three_minutes_def studio_def)

lemma no_video_duration_fields:
  "write_ok no_video_duration h p"
  "makedirs_ok no_video_duration h p"
  "exit_status no_video_duration h c = 0"
  "stdout_of no_video_duration h (duration_cmd ''/tmp/k/input_video.mp4'')
     = [CHR ''N'', CHR ''/'', CHR ''A'', CHR 0x0A]"
  "stdout_of no_video_duration h (duration_cmd ''/tmp/k/original_audio.wav'')
     = [CHR ''2'', CHR ''4'', CHR ''0'', CHR ''.'', CHR ''0'', CHR 0x0A]"
  "decode_utf8 no_video_duration s = Some s"
  "float_of_str no_video_duration ''N/A'' = None"
  by (simp_all add: no_video_duration_def studio_def duration_cmd_def)

lemma strip_examples:
  "py_strip [CHR ''1'', CHR ''8'', CHR ''0'', CHR ''.'', CHR ''0'', CHR 0x0A] = ''180.0''"
  "py_strip [CHR ''N'', CHR ''/'', CHR ''A'', CHR 0x0A] = ''N/A''"
  by code_simp+

text \<open>The stages up to the separation with the TwoStem model, where the upload can be
  written, the directory made and the two engines run. The probe is left to the world.\<close>

lemma twostem_stages:
  assumes "\<And>h p. write_ok W h p" and "\<And>h p. makedirs_ok W h p"
      and "\<And>h. exit_status W h (extract_cmd ''/tmp/k/input_video.mp4'' ''/tmp/k/original_audio.wav'') = 0"
      and "\<And>h. exit_status W h (spleeter_cmd ''spleeter:2stems'' ''/tmp/k'' ''/tmp/k/original_audio.wav'') = 0"
      and "separation_model st = ''spleeter:2stems''"
      and "get_video_duration W ''/tmp/k/input_video.mp4''
             [StatusText (Text ''Saving uploaded file...''),
              WriteFile ''/tmp/k/input_video.mp4'' True, Progress 10] = (duration, h3)"
      and "duration \<in> {None, Some 180, Some 240}"
  shows "stages_to_separation W clip st ''/tmp/k'' [] =
     (Inr (duration, ''/tmp/k/input_video.mp4'', ''/tmp/k/original_audio.wav'',
           ''/tmp/k/original_audio/accompaniment.wav''),
      h3 @ [StatusText (Text ''Extracting audio from video...''),
            Shell (extract_cmd ''/tmp/k/input_video.mp4'' ''/tmp/k/original_audio.wav'') 0,
            Progress 20,
            StatusText (Text ''Separating vocals using spleeter:2stems (this may take several minutes)...''),
            Makedirs ''/tmp/k'' True,
            Shell (spleeter_cmd ''spleeter:2stems'' ''/tmp/k'' ''/tmp/k/original_audio.wav'') 0,
            Progress 50])"
proof -
  have separation:
    "separate_vocals W ''/tmp/k/original_audio.wav'' ''/tmp/k'' ''spleeter:2stems'' h =
     (Inr ''/tmp/k/original_audio/accompaniment.wav'',
      h @ [Makedirs ''/tmp/k'' True,
           Shell (spleeter_cmd ''spleeter:2stems'' ''/tmp/k'' ''/tmp/k/original_audio.wav'') 0])" for h
    by (subst separate_vocals.simps)
       (simp add: os_makedirs_def subprocess_run_def assms(2,4) example_paths Let_def)
  from assms(7) show ?thesis
    by (auto simp add: stages_to_separation_def write_upload_def extract_audio_def
          separation_stage_def subprocess_run_def assms(1,3,5,6) separation example_paths Let_def)
qed

text \<open>What the probe of the page yields in the four worlds.\<close>

lemma example_durations:
  "get_video_duration studio ''/tmp/k/input_video.mp4'' h =
     (Some 240, h @ [Shell (duration_cmd ''/tmp/k/input_video.mp4'') 0])"
  "get_video_duration three_minutes ''/tmp/k/input_video.mp4'' h =
     (Some 180, h @ [Shell (duration_cmd ''/tmp/k/input_video.mp4'') 0])"
  "get_video_duration no_video_duration ''/tmp/k/input_video.mp4'' h =
     (None, h @ [Shell (duration_cmd ''/tmp/k/input_video.mp4'') 0])"
  "get_video_duration no_ffprobe ''/tmp/k/input_video.mp4'' h =
     (None, h @ [Shell (duration_cmd ''/tmp/k/input_video.mp4'') 127])"
  by (simp_all add: get_video_duration_def subprocess_check_output_def studio_fields
        three_minutes_fields no_video_duration_fields no_ffprobe_fields ffprobe_cmds
        strip_240 strip_examples Let_def)

text \<open>
  Five runs with the TwoStem model. Four minutes of video: \<^verbatim>\<open>base\<close> requested and
  \<^verbatim>\<open>tiny\<close> loaded; \<^verbatim>\<open>tiny\<close> requested and loaded. Three minutes: \<^verbatim>\<open>base\<close>
  requested and loaded. No duration known for the video: \<^verbatim>\<open>base\<close> requested and
  loaded. No \<^verbatim>\<open>ffprobe\<close>: no duration known, and no model loaded.
\<close>

theorem transcription_model_policy_witness:
  "loaded_models (snd (pipeline_try studio clip form2 ''/tmp/k'' ''/tmp/k/output'' [])) = [''tiny'']
   \<and> loaded_models (snd (pipeline_try studio clip (form2\<lparr>whisper_model := ''tiny''\<rparr>)
                            ''/tmp/k'' ''/tmp/k/output'' [])) = [''tiny'']
   \<and> loaded_models (snd (pipeline_try three_minutes clip form2 ''/tmp/k'' ''/tmp/k/output'' []))
       = [''base'']
   \<and> loaded_models (snd (pipeline_try no_video_duration clip form2 ''/tmp/k'' ''/tmp/k/output'' []))
       = [''base'']
   \<and> loaded_models (snd (pipeline_try no_ffprobe clip form2 ''/tmp/k'' ''/tmp/k/output'' [])) = []"
proof -
  have four: "loaded_models (snd (pipeline_try studio clip st ''/tmp/k'' ''/tmp/k/output'' []))
              = [policy_model (Some 240) (whisper_model st)]"
    if "separation_model st = ''spleeter:2stems''" for st
    using transcription_model_policy [of studio clip st "''/tmp/k''" "''/tmp/k/output''" "[]"]
      twostem_stages [of studio st, OF _ _ _ _ that example_durations(1)]
    by (simp add: studio_fields probe_text_def)
  have three: "loaded_models (snd (pipeline_try three_minutes clip form2 ''/tmp/k'' ''/tmp/k/output'' []))
               = [policy_model (Some 180) (whisper_model form2)]"
    using transcription_model_policy [of three_minutes clip form2 "''/tmp/k''" "''/tmp/k/output''" "[]"]
      twostem_stages [of three_minutes form2, OF _ _ _ _ _ example_durations(2)]
    by (simp add: three_minutes_fields probe_text_def form2_def)
  have unknown: "loaded_models (snd (pipeline_try no_video_duration clip form2 ''/tmp/k''
                                       ''/tmp/k/output'' []))
                 = [policy_model None (whisper_model form2)]"
    using transcription_model_policy [of no_video_duration clip form2 "''/tmp/k''" "''/tmp/k/output''" "[]"]
      twostem_stages [of no_video_duration form2, OF _ _ _ _ _ example_durations(3)]
    by (simp add: no_video_duration_fields probe_text_def form2_def)
  have none: "loaded_models (snd (pipeline_try no_ffprobe clip form2 ''/tmp/k'' ''/tmp/k/output'' []))
              = []"
    using transcription_model_policy [of no_ffprobe clip form2 "''/tmp/k''" "''/tmp/k/output''" "[]"]
      twostem_stages [of no_ffprobe form2, OF _ _ _ _ _ example_durations(4)]
    by (simp add: no_ffprobe_fields ffprobe_cmds probe_text_def form2_def)
  from four [of form2] four [of "form2\<lparr>whisper_model := ''tiny''\<rparr>"] three unknown none
  show ?thesis by (simp add: policy_model_def form2_def)
qed

end
